theory Spec2Isabelle
  imports Main "HOL-Library.Sublist"
begin

section \<open>Errors and their classification\<close>

text \<open>
  A Go \<open>error\<close> value. \<open>AwsError code message\<close> is an API error of the cloud client
  (\<open>awserr.Error\<close>); \<open>ErrorNew\<close> is \<open>errors.New\<close>; \<open>ErrorfW\<close> is \<open>fmt.Errorf\<close> with the
  verb \<open>%w\<close> (the cause stays reachable), \<open>ErrorfS\<close> is \<open>fmt.Errorf\<close> with \<open>%s\<close> (only the
  text of the cause is kept). The last three are the error types of the polling helper:
  each carries its \<open>LastError\<close>; the timeout and unexpected-state errors also carry the
  last state seen and the expected states. A nil error is \<open>None :: error option\<close>.
\<close>

datatype error =
    AwsError string string
  | ErrorNew string
  | ErrorfW string error
  | ErrorfS string error
  | TimeoutError "error option" string "string list"
  | UnexpectedStateError "error option" string "string list"
  | NotFoundError "error option"

text \<open>\<open>strings.Contains\<close>: the second string occurs in the first.\<close>

fun Contains :: "string \<Rightarrow> string \<Rightarrow> bool" where
  "Contains [] sub = (sub = [])"
| "Contains (c # cs) sub = (prefix sub (c # cs) \<or> Contains cs sub)"

text \<open>
  \<open>errors.As(err, &awsErr)\<close>: the first API error on the chain of causes. The chain
  follows \<open>%w\<close> and the \<open>LastError\<close> of the three error types of the polling helper.
\<close>

fun as_awserr :: "error \<Rightarrow> (string \<times> string) option" where
  "as_awserr (AwsError c m) = Some (c, m)"
| "as_awserr (ErrorfW p e) = as_awserr e"
| "as_awserr (TimeoutError (Some e) s ex) = as_awserr e"
| "as_awserr (UnexpectedStateError (Some e) s ex) = as_awserr e"
| "as_awserr (NotFoundError (Some e)) = as_awserr e"
| "as_awserr e = None"

text \<open>
  \<open>tfawserr.ErrMessageContains(err, code, message)\<close> and \<open>tfawserr.ErrCodeEquals(err, code)\<close>:
  the error is an API error with that code (and its message contains the given text).
  Both are false on a nil error.
\<close>

definition ErrMessageContains :: "error option \<Rightarrow> string \<Rightarrow> string \<Rightarrow> bool" where
  "ErrMessageContains err code msg =
     (case err of
        None \<Rightarrow> False
      | Some e \<Rightarrow> (case as_awserr e of
                     None \<Rightarrow> False
                   | Some (c, m) \<Rightarrow> c = code \<and> Contains m msg))"

definition ErrCodeEquals :: "error option \<Rightarrow> string \<Rightarrow> bool" where
  "ErrCodeEquals err code =
     (case err of
        None \<Rightarrow> False
      | Some e \<Rightarrow> (case as_awserr e of
                     None \<Rightarrow> False
                   | Some (c, m) \<Rightarrow> c = code))"

text \<open>\<open>aws.StringValue\<close>: a nil string pointer reads as the empty string.\<close>

definition StringValue :: "string option \<Rightarrow> string" where
  "StringValue p = (case p of None \<Rightarrow> [] | Some s \<Rightarrow> s)"


section \<open>The lifecycle poller\<close>

subsection \<open>The polling loop\<close>

record StateChangeConf =
  Pending :: "string list"
  Target :: "string list"
  Timeout :: nat

text \<open>
  Modelled from the spec: the polling loop \<open>resource.StateChangeConf.WaitForState\<close> is
  called by the waiters below but is not among the source files; it belongs to the plugin
  SDK. Following section 4.1 of the specification: on each tick the refresh function is
  invoked; an error it returns aborts the loop and is handed to the caller; an absent
  resource (nil result) is success when the target set is empty; a status in the target
  set is success; a status in the pending set is polled again; any other status is a hard
  failure; when the timeout elapses the loop fails with a timeout error.

  Where section 4.1 leaves the loop open, the model follows the loop of the SDK. An
  absent resource while a target state is awaited is polled again, but when more than
  \<open>NotFoundChecks\<close> polls in a row have found nothing the loop gives up with a not-found
  error. A status that is neither pending nor target is a failure only when the pending
  set is not empty. With the error of the refresh function and with the unexpected-state
  error the loop hands back the result of that poll; with the timeout error it hands
  back no result. The timeout error records the state seen last and the target states.

  Time is counted in ticks: \<open>Timeout\<close> is the number of refresh calls that fit before the
  deadline, and the \<open>k\<close>-th call of the refresh function is \<open>refresh k\<close>. The loop returns
  the result, the error, and the number of refresh calls made so far. The \<open>Delay\<close> of the
  configuration (thirty seconds in every waiter below) is real time and is not modelled.
\<close>

definition NotFoundChecks :: nat where
  "NotFoundChecks = 20"

fun WaitForState_loop ::
  "string list \<Rightarrow> string list \<Rightarrow> (nat \<Rightarrow> 'r option \<times> string \<times> error option) \<Rightarrow>
   nat \<Rightarrow> nat \<Rightarrow> nat \<Rightarrow> string \<Rightarrow> 'r option \<times> error option \<times> nat" where
  "WaitForState_loop pending target refresh 0 k notfoundTick lastState =
     (None, Some (TimeoutError None lastState target), k)"
| "WaitForState_loop pending target refresh (Suc n) k notfoundTick lastState =
     (case refresh k of
        (res, currentState, Some err) \<Rightarrow> (res, Some err, Suc k)
      | (None, currentState, None) \<Rightarrow>
          if target = [] then (None, None, Suc k)
          else if Suc notfoundTick > NotFoundChecks
          then (None, Some (NotFoundError None), Suc k)
          else WaitForState_loop pending target refresh n (Suc k) (Suc notfoundTick) currentState
      | (Some r, currentState, None) \<Rightarrow>
          if currentState \<in> set target then (Some r, None, Suc k)
          else if currentState \<in> set pending
          then WaitForState_loop pending target refresh n (Suc k) 0 currentState
          else if pending \<noteq> []
          then (Some r, Some (UnexpectedStateError None currentState target), Suc k)
          else WaitForState_loop pending target refresh n (Suc k) 0 currentState)"

definition WaitForState ::
  "StateChangeConf \<Rightarrow> (nat \<Rightarrow> 'r option \<times> string \<times> error option) \<Rightarrow>
   'r option \<times> error option \<times> nat" where
  "WaitForState conf refresh =
     WaitForState_loop (Pending conf) (Target conf) refresh (Timeout conf) 0 0 []"

text \<open>
  Modelled from the spec: \<open>tfresource.SetLastError(err, lastErr)\<close> is not among the source
  files. Per section 4.1 (a richer failure detail is surfaced as the reported cause): on a
  timeout or unexpected-state error that has no cause recorded yet, the cause becomes
  \<open>lastErr\<close>; any other error, and a nil error, is left as it is.
\<close>

fun SetLastError :: "error option \<Rightarrow> error \<Rightarrow> error option" where
  "SetLastError (Some (TimeoutError None s ex)) lastErr = Some (TimeoutError (Some lastErr) s ex)"
| "SetLastError (Some (UnexpectedStateError None s ex)) lastErr =
     Some (UnexpectedStateError (Some lastErr) s ex)"
| "SetLastError err lastErr = err"


subsection \<open>FSx file systems\<close>

record FileSystemFailureDetails =
  Message :: "string option"

record AdministrativeAction =
  AdministrativeActionType :: "string option"
  Status :: "string option"

record FileSystem =
  FileSystemId :: "string option"
  Lifecycle :: "string option"
  FailureDetails :: "FileSystemFailureDetails option"
  AdministrativeActions :: "AdministrativeAction option list"

text \<open>Constants of the FSx client package.\<close>

definition ErrCodeFileSystemNotFound :: string where
  "ErrCodeFileSystemNotFound = ''FileSystemNotFound''"
definition FileSystemLifecycleAvailable :: string where
  "FileSystemLifecycleAvailable = ''AVAILABLE''"
definition FileSystemLifecycleCreating :: string where
  "FileSystemLifecycleCreating = ''CREATING''"
definition FileSystemLifecycleDeleting :: string where
  "FileSystemLifecycleDeleting = ''DELETING''"
definition StatusInProgress :: string where
  "StatusInProgress = ''IN_PROGRESS''"
definition StatusPending :: string where
  "StatusPending = ''PENDING''"
definition StatusCompleted :: string where
  "StatusCompleted = ''COMPLETED''"
definition StatusUpdatedOptimizing :: string where
  "StatusUpdatedOptimizing = ''UPDATED_OPTIMIZING''"

text \<open>
  One paginated \<open>DescribeFileSystems\<close> request is the list of its pages, each page either
  the error of that page's request or the file systems on it. The pager stops at the first
  failed page, when the callback returns false, or after the last page.
\<close>

type_synonym DescribeFileSystemsPages = "(error + FileSystem list) list"

fun describeFsxFileSystem_pages ::
  "DescribeFileSystemsPages \<Rightarrow> string \<Rightarrow> FileSystem option \<times> error option" where
  "describeFsxFileSystem_pages [] ident = (None, None)"
| "describeFsxFileSystem_pages (Inl err # rest) ident = (None, Some err)"
| "describeFsxFileSystem_pages (Inr page # rest) ident =
     (case find (\<lambda>fs. StringValue (FileSystemId fs) = ident) page of
        Some fs \<Rightarrow> (Some fs, None)
      | None \<Rightarrow> describeFsxFileSystem_pages rest ident)"

text \<open>The connection answers the \<open>k\<close>-th describe request with \<open>conn k\<close>.\<close>

definition describeFsxFileSystem ::
  "(nat \<Rightarrow> DescribeFileSystemsPages) \<Rightarrow> string \<Rightarrow> nat \<Rightarrow> FileSystem option \<times> error option" where
  "describeFsxFileSystem conn ident k = describeFsxFileSystem_pages (conn k) ident"

definition refreshFsxFileSystemLifecycle ::
  "(nat \<Rightarrow> DescribeFileSystemsPages) \<Rightarrow> string \<Rightarrow> nat \<Rightarrow>
   FileSystem option \<times> string \<times> error option" where
  "refreshFsxFileSystemLifecycle conn ident k =
     (case describeFsxFileSystem conn ident k of
        (filesystem, err) \<Rightarrow>
          if ErrMessageContains err ErrCodeFileSystemNotFound [] then (None, [], None)
          else if err \<noteq> None then (None, [], err)
          else (case filesystem of
                  None \<Rightarrow> (None, [], None)
                | Some fs \<Rightarrow> (Some fs, StringValue (Lifecycle fs), None)))"

fun administrativeAction_status :: "AdministrativeAction option list \<Rightarrow> string \<Rightarrow> string" where
  "administrativeAction_status [] action = StatusCompleted"
| "administrativeAction_status (None # rest) action = administrativeAction_status rest action"
| "administrativeAction_status (Some a # rest) action =
     (if StringValue (AdministrativeActionType a) = action then StringValue (Status a)
      else administrativeAction_status rest action)"

definition refreshFsxFileSystemAdministrativeActionsStatusFileSystemUpdate ::
  "(nat \<Rightarrow> DescribeFileSystemsPages) \<Rightarrow> string \<Rightarrow> string \<Rightarrow> nat \<Rightarrow>
   FileSystem option \<times> string \<times> error option" where
  "refreshFsxFileSystemAdministrativeActionsStatusFileSystemUpdate conn ident action k =
     (case describeFsxFileSystem conn ident k of
        (filesystem, err) \<Rightarrow>
          if ErrMessageContains err ErrCodeFileSystemNotFound [] then (None, [], None)
          else if err \<noteq> None then (None, [], err)
          else (case filesystem of
                  None \<Rightarrow> (None, [], None)
                | Some fs \<Rightarrow>
                    (Some fs, administrativeAction_status (AdministrativeActions fs) action, None)))"

text \<open>
  The waiters. Each returns the error (nil is \<open>None\<close>) and the number of describe requests
  made. The creation and deletion waiters pass the failure message of the file system
  handed back by the loop, when it hands one back, to \<open>SetLastError\<close>; the update
  waiters drop the loop's result.
\<close>

definition waitForFsxFileSystemCreation ::
  "(nat \<Rightarrow> DescribeFileSystemsPages) \<Rightarrow> string \<Rightarrow> nat \<Rightarrow> error option \<times> nat" where
  "waitForFsxFileSystemCreation conn ident timeout =
     (let stateConf = \<lparr>Pending = [FileSystemLifecycleCreating],
                       Target = [FileSystemLifecycleAvailable],
                       Timeout = timeout\<rparr>
      in case WaitForState stateConf (refreshFsxFileSystemLifecycle conn ident) of
           (outputRaw, err, calls) \<Rightarrow>
             (case outputRaw of
                None \<Rightarrow> (err, calls)
              | Some output \<Rightarrow>
                  (case FailureDetails output of
                     None \<Rightarrow> (err, calls)
                   | Some fd \<Rightarrow>
                       (SetLastError err (ErrorNew (StringValue (Message fd))), calls))))"

definition waitForFsxFileSystemDeletion ::
  "(nat \<Rightarrow> DescribeFileSystemsPages) \<Rightarrow> string \<Rightarrow> nat \<Rightarrow> error option \<times> nat" where
  "waitForFsxFileSystemDeletion conn ident timeout =
     (let stateConf = \<lparr>Pending = [FileSystemLifecycleAvailable, FileSystemLifecycleDeleting],
                       Target = [],
                       Timeout = timeout\<rparr>
      in case WaitForState stateConf (refreshFsxFileSystemLifecycle conn ident) of
           (outputRaw, err, calls) \<Rightarrow>
             (case outputRaw of
                None \<Rightarrow> (err, calls)
              | Some output \<Rightarrow>
                  (case FailureDetails output of
                     None \<Rightarrow> (err, calls)
                   | Some fd \<Rightarrow>
                       (SetLastError err (ErrorNew (StringValue (Message fd))), calls))))"


definition waitForFsxFileSystemUpdateAdministrativeActionsStatusFileSystemUpdate ::
  "(nat \<Rightarrow> DescribeFileSystemsPages) \<Rightarrow> string \<Rightarrow> string \<Rightarrow> nat \<Rightarrow> error option \<times> nat" where
  "waitForFsxFileSystemUpdateAdministrativeActionsStatusFileSystemUpdate conn ident action timeout =
     (let stateConf = \<lparr>Pending = [StatusInProgress, StatusPending],
                       Target = [StatusCompleted, StatusUpdatedOptimizing],
                       Timeout = timeout\<rparr>
      in case WaitForState stateConf
                (refreshFsxFileSystemAdministrativeActionsStatusFileSystemUpdate conn ident action) of
           (outputRaw, err, calls) \<Rightarrow> (err, calls))"

text \<open>
  A refresh result that shows the resource in a pending state: no error, a result, and a
  status that is pending and not a target. The loop polls again after it.
\<close>

definition observed_pending ::
  "string list \<Rightarrow> string list \<Rightarrow> 'r option \<times> string \<times> error option \<Rightarrow> bool" where
  "observed_pending pending target r =
     (case r of
        (res, currentState, err) \<Rightarrow>
          err = None \<and> res \<noteq> None \<and> currentState \<notin> set target \<and> currentState \<in> set pending)"

section \<open>Resource handlers\<close>

subsection \<open>Resource data and the client\<close>

text \<open>
  The value of an attribute of the configuration schema: a string, a boolean, a map or a
  set of name/value objects (a list of pairs), or a list of nested objects.
\<close>

datatype val =
    VStr string
  | VBool bool
  | VPairs "(string \<times> string) list"
  | VMaps "(string \<times> string) list list"

text \<open>
  \<open>schema.ResourceData\<close>: the identifier, the attributes as the handler reads and sets
  them, the attributes of the prior state (what \<open>HasChange\<close> compares with), and the flag
  of a resource that is being created.
\<close>

record ResourceData =
  Id :: string
  attrs :: "string \<Rightarrow> val"
  prior :: "string \<Rightarrow> val"
  IsNewResource :: bool

definition SetId :: "ResourceData \<Rightarrow> string \<Rightarrow> ResourceData" where
  "SetId d v = d\<lparr>Id := v\<rparr>"

definition SetAttr :: "ResourceData \<Rightarrow> string \<Rightarrow> val \<Rightarrow> ResourceData" where
  "SetAttr d key v = d\<lparr>attrs := (attrs d)(key := v)\<rparr>"

text \<open>Setting a string or boolean attribute from a pointer: nil stores the zero value.\<close>

definition SetStringPtr :: "ResourceData \<Rightarrow> string \<Rightarrow> string option \<Rightarrow> ResourceData" where
  "SetStringPtr d key p = SetAttr d key (VStr (StringValue p))"

definition SetBoolPtr :: "ResourceData \<Rightarrow> string \<Rightarrow> bool option \<Rightarrow> ResourceData" where
  "SetBoolPtr d key p = SetAttr d key (VBool (case p of None \<Rightarrow> False | Some b \<Rightarrow> b))"

definition GetString :: "ResourceData \<Rightarrow> string \<Rightarrow> string" where
  "GetString d key = (case attrs d key of VStr s \<Rightarrow> s | _ \<Rightarrow> [])"

definition GetBool :: "ResourceData \<Rightarrow> string \<Rightarrow> bool" where
  "GetBool d key = (case attrs d key of VBool b \<Rightarrow> b | _ \<Rightarrow> False)"

definition GetPairs :: "ResourceData \<Rightarrow> string \<Rightarrow> (string \<times> string) list" where
  "GetPairs d key = (case attrs d key of VPairs ps \<Rightarrow> ps | _ \<Rightarrow> [])"

definition GetMaps :: "ResourceData \<Rightarrow> string \<Rightarrow> (string \<times> string) list list" where
  "GetMaps d key = (case attrs d key of VMaps ms \<Rightarrow> ms | _ \<Rightarrow> [])"

text \<open>\<open>d.GetOk\<close> on a string attribute: the value, when it is not the zero value.\<close>

definition GetOkString :: "ResourceData \<Rightarrow> string \<Rightarrow> string option" where
  "GetOkString d key = (let v = GetString d key in if v = [] then None else Some v)"

definition HasChange :: "ResourceData \<Rightarrow> string \<Rightarrow> bool" where
  "HasChange d key = (prior d key \<noteq> attrs d key)"

text \<open>
  The provider's client (\<open>meta\<close>): account, partition and region, and the two tag
  filters of its configuration, \<open>IgnoreTags\<close> for \<open>IgnoreAws().IgnoreConfig(ignoreTagsConfig)\<close>
  and \<open>RemoveDefaultTags\<close> for \<open>RemoveDefaultConfig(defaultTagsConfig)\<close>; the tag helpers
  are not among the source files.
\<close>

record AWSClient =
  AccountID :: string
  Partition :: string
  Region :: string
  IgnoreTags :: "(string \<times> string) list \<Rightarrow> (string \<times> string) list"
  RemoveDefaultTags :: "(string \<times> string) list \<Rightarrow> (string \<times> string) list"

text \<open>\<open>arn.ARN{...}.String()\<close>.\<close>

definition arn_String :: "string \<Rightarrow> string \<Rightarrow> string \<Rightarrow> string \<Rightarrow> string \<Rightarrow> string" where
  "arn_String part service region account res =
     ''arn:'' @ part @ '':'' @ service @ '':'' @ region @ '':'' @ account @ '':'' @ res"


subsection \<open>Security Hub organization configuration\<close>

record DescribeOrganizationConfigurationOutput =
  AutoEnable :: "bool option"

text \<open>
  The connection: how the service answers each request. The update request carries the
  \<open>auto_enable\<close> flag.
\<close>

record SecurityHubConn =
  UpdateOrganizationConfiguration :: "bool \<Rightarrow> error option"
  DescribeOrganizationConfiguration :: "error + DescribeOrganizationConfigurationOutput"

definition resourceAwsSecurityHubOrganizationConfigurationRead ::
  "SecurityHubConn \<Rightarrow> ResourceData \<Rightarrow> ResourceData \<times> error option" where
  "resourceAwsSecurityHubOrganizationConfigurationRead conn d =
     (case DescribeOrganizationConfiguration conn of
        Inl err \<Rightarrow>
          (d, Some (ErrorfW ''error reading Security Hub Organization Configuration: '' err))
      | Inr output \<Rightarrow> (SetBoolPtr d ''auto_enable'' (AutoEnable output), None))"

definition resourceAwsSecurityHubOrganizationConfigurationUpdate ::
  "AWSClient \<Rightarrow> SecurityHubConn \<Rightarrow> ResourceData \<Rightarrow> ResourceData \<times> error option" where
  "resourceAwsSecurityHubOrganizationConfigurationUpdate meta conn d =
     (case UpdateOrganizationConfiguration conn (GetBool d ''auto_enable'') of
        Some err \<Rightarrow>
          (d, Some (ErrorfW (''error updating Security Hub Organization Configuration (''
                              @ Id d @ ''): '') err))
      | None \<Rightarrow>
          resourceAwsSecurityHubOrganizationConfigurationRead conn (SetId d (AccountID meta)))"


subsection \<open>SES active receipt rule set\<close>

record ReceiptRuleSetMetadata =
  Name :: "string option"

definition ErrCodeRuleSetDoesNotExistException :: string where
  "ErrCodeRuleSetDoesNotExistException = ''RuleSetDoesNotExist''"

text \<open>
  \<open>SetActiveReceiptRuleSet\<close> takes the rule set name (nil on delete);
  \<open>DescribeActiveReceiptRuleSet\<close> answers with an error or with the metadata of the active
  rule set, nil when there is none.
\<close>

record SESConn =
  SetActiveReceiptRuleSet :: "string option \<Rightarrow> error option"
  DescribeActiveReceiptRuleSet :: "error + ReceiptRuleSetMetadata option"

definition resourceAwsSesActiveReceiptRuleSetRead ::
  "AWSClient \<Rightarrow> SESConn \<Rightarrow> ResourceData \<Rightarrow> ResourceData \<times> error option" where
  "resourceAwsSesActiveReceiptRuleSetRead meta conn d =
     (case DescribeActiveReceiptRuleSet conn of
        Inl err \<Rightarrow>
          if ErrMessageContains (Some err) ErrCodeRuleSetDoesNotExistException []
          then (SetId d [], None)
          else (d, Some err)
      | Inr None \<Rightarrow> (SetId d [], None)
      | Inr (Some metadata) \<Rightarrow>
          (let d1 = SetStringPtr d ''rule_set_name'' (Name metadata);
               arn = arn_String (Partition meta) ''ses'' (Region meta) (AccountID meta)
                       (''receipt-rule-set/'' @ Id d1)
           in (SetAttr d1 ''arn'' (VStr arn), None)))"

definition resourceAwsSesActiveReceiptRuleSetUpdate ::
  "AWSClient \<Rightarrow> SESConn \<Rightarrow> ResourceData \<Rightarrow> ResourceData \<times> error option" where
  "resourceAwsSesActiveReceiptRuleSetUpdate meta conn d =
     (let ruleSetName = GetString d ''rule_set_name''
      in case SetActiveReceiptRuleSet conn (Some ruleSetName) of
           Some err \<Rightarrow> (d, Some (ErrorfS ''Error setting active SES rule set: '' err))
         | None \<Rightarrow> resourceAwsSesActiveReceiptRuleSetRead meta conn (SetId d ruleSetName))"

definition resourceAwsSesActiveReceiptRuleSetDelete ::
  "SESConn \<Rightarrow> ResourceData \<Rightarrow> error option" where
  "resourceAwsSesActiveReceiptRuleSetDelete conn d =
     (case SetActiveReceiptRuleSet conn None of
        Some err \<Rightarrow> Some (ErrorfS ''Error deleting active SES rule set: '' err)
      | None \<Rightarrow> None)"


subsection \<open>DAX parameter group\<close>

record ParameterGroup =
  ParameterGroupName :: "string option"
  Description :: "string option"

record Parameter =
  ParameterName :: "string option"
  ParameterValue :: "string option"

record ParameterNameValue =
  nv_ParameterName :: "string option"
  nv_ParameterValue :: "string option"

record CreateParameterGroupInput =
  create_ParameterGroupName :: "string option"
  create_Description :: "string option"

record UpdateParameterGroupInput =
  update_ParameterGroupName :: "string option"
  update_ParameterNameValues :: "ParameterNameValue list"

definition ErrCodeParameterGroupNotFoundFault :: string where
  "ErrCodeParameterGroupNotFoundFault = ''ParameterGroupNotFoundFault''"

record DAXConn =
  CreateParameterGroup :: "CreateParameterGroupInput \<Rightarrow> error option"
  DescribeParameterGroups :: "string list \<Rightarrow> error + ParameterGroup list"
  DescribeParameters :: "string \<Rightarrow> error + Parameter list"
  UpdateParameterGroup :: "UpdateParameterGroupInput \<Rightarrow> error option"
  DeleteParameterGroup :: "string \<Rightarrow> error option"

text \<open>
  Modelled from the spec: \<open>flattenParameterGroupParameters\<close> and
  \<open>expandParameterGroupParameterNameValue\<close> are not among the source files. Per section 3
  (every field written is exactly the field read back) they map the name and the value of
  each parameter one to one between the API structure and the \<open>parameters\<close> attribute, a
  set of name/value pairs.
\<close>

definition flattenParameterGroupParameters :: "Parameter list \<Rightarrow> (string \<times> string) list" where
  "flattenParameterGroupParameters params =
     map (\<lambda>p. (StringValue (ParameterName p), StringValue (ParameterValue p))) params"

definition expandParameterGroupParameterNameValue ::
  "(string \<times> string) list \<Rightarrow> ParameterNameValue list" where
  "expandParameterGroupParameterNameValue config =
     map (\<lambda>(n, v). \<lparr>nv_ParameterName = Some n, nv_ParameterValue = Some v\<rparr>) config"

definition resourceAwsDaxParameterGroupRead ::
  "DAXConn \<Rightarrow> ResourceData \<Rightarrow> ResourceData \<times> error option" where
  "resourceAwsDaxParameterGroupRead conn d =
     (case DescribeParameterGroups conn [Id d] of
        Inl err \<Rightarrow>
          if ErrMessageContains (Some err) ErrCodeParameterGroupNotFoundFault []
          then (SetId d [], None)
          else (d, Some err)
      | Inr [] \<Rightarrow> (SetId d [], None)
      | Inr (pg # others) \<Rightarrow>
          (case DescribeParameters conn (Id d) of
             Inl err \<Rightarrow>
               if ErrMessageContains (Some err) ErrCodeParameterGroupNotFoundFault []
               then (SetId d [], None)
               else (d, Some err)
           | Inr parameters \<Rightarrow>
               (let d1 = SetStringPtr d ''name'' (ParameterGroupName pg);
                    desc = (if Description pg = Some '' '' then Some [] else Description pg);
                    d2 = SetStringPtr d1 ''description'' desc
                in (SetAttr d2 ''parameters''
                      (VPairs (flattenParameterGroupParameters parameters)), None))))"

definition daxUpdateParameterGroupInput :: "ResourceData \<Rightarrow> UpdateParameterGroupInput" where
  "daxUpdateParameterGroupInput d =
     \<lparr>update_ParameterGroupName = Some (Id d),
      update_ParameterNameValues =
        (if HasChange d ''parameters''
         then expandParameterGroupParameterNameValue (GetPairs d ''parameters'')
         else [])\<rparr>"

definition resourceAwsDaxParameterGroupUpdate ::
  "DAXConn \<Rightarrow> ResourceData \<Rightarrow> ResourceData \<times> error option" where
  "resourceAwsDaxParameterGroupUpdate conn d =
     (case UpdateParameterGroup conn (daxUpdateParameterGroupInput d) of
        Some err \<Rightarrow> (d, Some err)
      | None \<Rightarrow> resourceAwsDaxParameterGroupRead conn d)"



definition resourceAwsDaxParameterGroupDelete ::
  "DAXConn \<Rightarrow> ResourceData \<Rightarrow> error option" where
  "resourceAwsDaxParameterGroupDelete conn d =
     (case DeleteParameterGroup conn (Id d) of
        Some err \<Rightarrow>
          if ErrMessageContains (Some err) ErrCodeParameterGroupNotFoundFault []
          then None
          else Some err
      | None \<Rightarrow> None)"


subsection \<open>Bounded retries\<close>

text \<open>\<open>resource.RetryError\<close>, built by \<open>RetryableError\<close> and \<open>NonRetryableError\<close>.\<close>

record RetryError =
  Err :: error
  Retryable :: bool

definition RetryableError :: "error option \<Rightarrow> RetryError option" where
  "RetryableError err = map_option (\<lambda>e. \<lparr>Err = e, Retryable = True\<rparr>) err"

definition NonRetryableError :: "error option \<Rightarrow> RetryError option" where
  "NonRetryableError err = map_option (\<lambda>e. \<lparr>Err = e, Retryable = False\<rparr>) err"

text \<open>
  Modelled from the spec: \<open>resource.Retry(timeout, f)\<close> is not among the source files; it
  belongs to the plugin SDK. Per sections 5 and 7, \<open>f\<close> is called again while it reports a
  retryable error, for a bounded duration; a nil result ends the retries with success, a
  non-retryable error ends them with that error.

  What the specification leaves open follows the helper of the SDK: it keeps the error of
  the last call of \<open>f\<close>, and when the duration has elapsed it returns that error; only
  when no call has recorded an error the result is a timeout error without a cause.

  The duration is counted in attempts: the first argument is the number of calls of \<open>f\<close>
  that are answered within the retry window. \<open>f k\<close> is the \<open>k\<close>-th call; besides its
  result it yields the value it assigned to the variable it captured. The last argument
  is the error recorded so far. \<open>Retry\<close> returns the error, the captured variable, and
  the number of calls made.
\<close>

fun Retry_loop ::
  "nat \<Rightarrow> (nat \<Rightarrow> RetryError option \<times> 'a) \<Rightarrow> nat \<Rightarrow> 'a \<Rightarrow> error option \<Rightarrow>
   error option \<times> 'a \<times> nat" where
  "Retry_loop 0 f k out resultErr =
     (case resultErr of
        None \<Rightarrow> (Some (TimeoutError None [] [''success'']), out, k)
      | Some e \<Rightarrow> (Some e, out, k))"
| "Retry_loop (Suc n) f k out resultErr =
     (case f k of
        (None, out') \<Rightarrow> (None, out', Suc k)
      | (Some rerr, out') \<Rightarrow>
          if Retryable rerr then Retry_loop n f (Suc k) out' (Some (Err rerr))
          else (Some (Err rerr), out', Suc k))"

definition Retry ::
  "nat \<Rightarrow> (nat \<Rightarrow> RetryError option \<times> 'a) \<Rightarrow> 'a \<Rightarrow> error option \<times> 'a \<times> nat" where
  "Retry timeout f out = Retry_loop timeout f 0 out None"

text \<open>
  Modelled from the spec: \<open>tfresource.TimedOut\<close> and \<open>tfresource.NotFound\<close> are not among
  the source files. \<open>TimedOut\<close> recognises the timeout of the retry helper (a timeout
  error without a cause, not wrapped); \<open>NotFound\<close> recognises the not-found error of a
  waiter or finder anywhere on the chain of causes.
\<close>

fun TimedOut :: "error option \<Rightarrow> bool" where
  "TimedOut (Some (TimeoutError None s ex)) = True"
| "TimedOut err = False"

fun is_NotFoundError :: "error \<Rightarrow> bool" where
  "is_NotFoundError (NotFoundError le) = True"
| "is_NotFoundError (ErrorfW p e) = is_NotFoundError e"
| "is_NotFoundError (TimeoutError (Some e) s ex) = is_NotFoundError e"
| "is_NotFoundError (UnexpectedStateError (Some e) s ex) = is_NotFoundError e"
| "is_NotFoundError e = False"

definition NotFound :: "error option \<Rightarrow> bool" where
  "NotFound err = (case err of None \<Rightarrow> False | Some e \<Rightarrow> is_NotFoundError e)"


subsection \<open>Service Catalog constraint\<close>

record ConstraintDetail =
  cd_ConstraintId :: "string option"
  cd_Description :: "string option"
  cd_Owner :: "string option"
  cd_PortfolioId :: "string option"
  cd_ProductId :: "string option"
  cd_Type :: "string option"

record CreateConstraintOutput =
  create_ConstraintDetail :: "ConstraintDetail option"

record DescribeConstraintOutput =
  describe_ConstraintDetail :: "ConstraintDetail option"
  describe_ConstraintParameters :: "string option"
  describe_Status :: "string option"

record CreateConstraintInput =
  cc_AcceptLanguage :: "string option"
  cc_Description :: "string option"
  cc_IdempotencyToken :: "string option"
  cc_Parameters :: "string option"
  cc_PortfolioId :: "string option"
  cc_ProductId :: "string option"
  cc_Type :: "string option"

record UpdateConstraintInput =
  uc_Id :: "string option"
  uc_AcceptLanguage :: "string option"
  uc_Description :: "string option"
  uc_Parameters :: "string option"

record DeleteConstraintInput =
  dc_Id :: "string option"
  dc_AcceptLanguage :: "string option"

definition ErrCodeInvalidParametersException :: string where
  "ErrCodeInvalidParametersException = ''InvalidParametersException''"
definition ErrCodeResourceNotFoundException :: string where
  "ErrCodeResourceNotFoundException = ''ResourceNotFoundException''"
definition acceptLanguageEnglish :: string where
  "acceptLanguageEnglish = ''en''"

text \<open>
  The connection. \<open>CreateConstraint conn k\<close> and \<open>UpdateConstraint conn k\<close> answer the
  \<open>k\<close>-th request of that kind. The waiters \<open>waitConstraintReady\<close> and
  \<open>waitConstraintDeleted\<close> (accept language, identifier) and \<open>resource.UniqueId\<close> are not
  among the source files: their results belong to the environment.
\<close>

record ServiceCatalogConn =
  CreateConstraint :: "nat \<Rightarrow> CreateConstraintInput \<Rightarrow> CreateConstraintOutput option \<times> error option"
  UpdateConstraint :: "nat \<Rightarrow> UpdateConstraintInput \<Rightarrow> error option"
  DeleteConstraint :: "DeleteConstraintInput \<Rightarrow> error option"
  waitConstraintReady :: "string \<Rightarrow> string \<Rightarrow> DescribeConstraintOutput option \<times> error option"
  waitConstraintDeleted :: "string \<Rightarrow> string \<Rightarrow> error option"
  UniqueId :: string

definition resourceAwsServiceCatalogConstraintRead ::
  "ServiceCatalogConn \<Rightarrow> ResourceData \<Rightarrow> ResourceData \<times> error option" where
  "resourceAwsServiceCatalogConstraintRead conn d =
     (case waitConstraintReady conn (GetString d ''accept_language'') (Id d) of
        (output, err) \<Rightarrow>
          if \<not> IsNewResource d \<and> NotFound err then (SetId d [], None)
          else
            (case err of
               Some e \<Rightarrow>
                 (d, Some (ErrorfW (''error describing Service Catalog Constraint (''
                                     @ Id d @ ''): '') e))
             | None \<Rightarrow>
                 (case output of
                    None \<Rightarrow>
                      (d, Some (ErrorNew (''error getting Service Catalog Constraint (''
                                           @ Id d @ ''): empty response'')))
                  | Some out \<Rightarrow>
                      (case describe_ConstraintDetail out of
                         None \<Rightarrow>
                           (d, Some (ErrorNew (''error getting Service Catalog Constraint (''
                                                @ Id d @ ''): empty response'')))
                       | Some detail \<Rightarrow>
                           (let acceptLanguage =
                                  (if GetString d ''accept_language'' = [] then acceptLanguageEnglish
                                   else GetString d ''accept_language'');
                                d1 = SetAttr d ''accept_language'' (VStr acceptLanguage);
                                d2 = SetStringPtr d1 ''parameters'' (describe_ConstraintParameters out);
                                d3 = SetStringPtr d2 ''status'' (describe_Status out);
                                d4 = SetStringPtr d3 ''description'' (cd_Description detail);
                                d5 = SetStringPtr d4 ''owner'' (cd_Owner detail);
                                d6 = SetStringPtr d5 ''portfolio_id'' (cd_PortfolioId detail);
                                d7 = SetStringPtr d6 ''product_id'' (cd_ProductId detail)
                            in (SetStringPtr d7 ''type'' (cd_Type detail), None))))))"

definition serviceCatalogCreateConstraintInput ::
  "ServiceCatalogConn \<Rightarrow> ResourceData \<Rightarrow> CreateConstraintInput" where
  "serviceCatalogCreateConstraintInput conn d =
     \<lparr>cc_AcceptLanguage = GetOkString d ''accept_language'',
      cc_Description = GetOkString d ''description'',
      cc_IdempotencyToken = Some (UniqueId conn),
      cc_Parameters = Some (GetString d ''parameters''),
      cc_PortfolioId = Some (GetString d ''portfolio_id''),
      cc_ProductId = Some (GetString d ''product_id''),
      cc_Type = Some (GetString d ''type'')\<rparr>"

text \<open>The function retried by Create: its result, and the output it assigned.\<close>

definition createConstraint_attempt ::
  "ServiceCatalogConn \<Rightarrow> CreateConstraintInput \<Rightarrow> nat \<Rightarrow>
   RetryError option \<times> CreateConstraintOutput option" where
  "createConstraint_attempt conn input k =
     (case CreateConstraint conn k input of
        (output, err) \<Rightarrow>
          if ErrMessageContains err ErrCodeInvalidParametersException ''profile does not exist''
          then (RetryableError err, output)
          else if ErrCodeEquals err ErrCodeResourceNotFoundException
          then (RetryableError err, output)
          else if err \<noteq> None then (NonRetryableError err, output)
          else (None, output))"

text \<open>
  Create and Update also return the number of create (update) requests sent. The first
  argument stands for \<open>tfiam.PropagationTimeout\<close>: the number of attempts answered within it.
\<close>

definition resourceAwsServiceCatalogConstraintCreate ::
  "nat \<Rightarrow> ServiceCatalogConn \<Rightarrow> ResourceData \<Rightarrow> ResourceData \<times> error option \<times> nat" where
  "resourceAwsServiceCatalogConstraintCreate PropagationTimeout conn d =
     (let input = serviceCatalogCreateConstraintInput conn d
      in case Retry PropagationTimeout (createConstraint_attempt conn input) None of
           (err0, output0, calls0) \<Rightarrow>
             (case (if TimedOut err0
                    then (case CreateConstraint conn calls0 input of
                            (output1, err1) \<Rightarrow> (err1, output1, Suc calls0))
                    else (err0, output0, calls0)) of
                (Some e, output, calls) \<Rightarrow>
                  (d, Some (ErrorfW ''error creating Service Catalog Constraint: '' e), calls)
              | (None, None, calls) \<Rightarrow>
                  (d, Some (ErrorNew ''error creating Service Catalog Constraint: empty response''),
                   calls)
              | (None, Some out, calls) \<Rightarrow>
                  (case create_ConstraintDetail out of
                     None \<Rightarrow>
                       (d, Some (ErrorNew
                                   ''error creating Service Catalog Constraint: empty response''),
                        calls)
                   | Some detail \<Rightarrow>
                       (case resourceAwsServiceCatalogConstraintRead conn
                               (SetId d (StringValue (cd_ConstraintId detail))) of
                          (d', err') \<Rightarrow> (d', err', calls)))))"

definition serviceCatalogUpdateConstraintInput :: "ResourceData \<Rightarrow> UpdateConstraintInput" where
  "serviceCatalogUpdateConstraintInput d =
     \<lparr>uc_Id = Some (Id d),
      uc_AcceptLanguage =
        (if HasChange d ''accept_language'' then Some (GetString d ''accept_language'') else None),
      uc_Description =
        (if HasChange d ''description'' then Some (GetString d ''description'') else None),
      uc_Parameters =
        (if HasChange d ''parameters'' then Some (GetString d ''parameters'') else None)\<rparr>"

definition updateConstraint_attempt ::
  "ServiceCatalogConn \<Rightarrow> UpdateConstraintInput \<Rightarrow> nat \<Rightarrow> RetryError option \<times> unit" where
  "updateConstraint_attempt conn input k =
     (let err = UpdateConstraint conn k input
      in if ErrMessageContains err ErrCodeInvalidParametersException ''profile does not exist''
         then (RetryableError err, ())
         else if err \<noteq> None then (NonRetryableError err, ())
         else (None, ()))"

definition resourceAwsServiceCatalogConstraintUpdate ::
  "nat \<Rightarrow> ServiceCatalogConn \<Rightarrow> ResourceData \<Rightarrow> ResourceData \<times> error option \<times> nat" where
  "resourceAwsServiceCatalogConstraintUpdate PropagationTimeout conn d =
     (let input = serviceCatalogUpdateConstraintInput d
      in case Retry PropagationTimeout (updateConstraint_attempt conn input) () of
           (err0, u, calls0) \<Rightarrow>
             (case (if TimedOut err0
                    then (UpdateConstraint conn calls0 input, Suc calls0)
                    else (err0, calls0)) of
                (Some e, calls) \<Rightarrow>
                  (d, Some (ErrorfW (''error updating Service Catalog Constraint (''
                                      @ Id d @ ''): '') e), calls)
              | (None, calls) \<Rightarrow>
                  (case resourceAwsServiceCatalogConstraintRead conn d of
                     (d', err') \<Rightarrow> (d', err', calls))))"

definition resourceAwsServiceCatalogConstraintDelete ::
  "ServiceCatalogConn \<Rightarrow> ResourceData \<Rightarrow> error option" where
  "resourceAwsServiceCatalogConstraintDelete conn d =
     (let input = \<lparr>dc_Id = Some (Id d), dc_AcceptLanguage = GetOkString d ''accept_language''\<rparr>;
          err = DeleteConstraint conn input
      in if ErrCodeEquals err ErrCodeResourceNotFoundException then None
         else
           (case err of
              Some e \<Rightarrow>
                Some (ErrorfW (''error deleting Service Catalog Constraint ('' @ Id d @ ''): '') e)
            | None \<Rightarrow>
                (case waitConstraintDeleted conn (GetString d ''accept_language'') (Id d) of
                   Some e \<Rightarrow>
                     if \<not> NotFound (Some e)
                     then Some (ErrorfW (''error waiting for Service Catalog Constraint (''
                                          @ Id d @ '') to be deleted: '') e)
                     else None
                 | None \<Rightarrow> None)))"


subsection \<open>EC2 transit gateway peering attachment and carrier gateway\<close>

record PeeringTgwInfo =
  tgw_OwnerId :: "string option"
  tgw_Region :: "string option"
  tgw_TransitGatewayId :: "string option"

record TransitGatewayPeeringAttachment =
  tgwa_State :: "string option"
  AccepterTgwInfo :: PeeringTgwInfo
  RequesterTgwInfo :: PeeringTgwInfo
  tgwa_Tags :: "(string \<times> string) list"

record CarrierGateway =
  cg_OwnerId :: "string option"
  cg_State :: "string option"
  cg_VpcId :: "string option"
  cg_Tags :: "(string \<times> string) list"

definition TransitGatewayAttachmentStateDeleting :: string where
  "TransitGatewayAttachmentStateDeleting = ''deleting''"
definition TransitGatewayAttachmentStateDeleted :: string where
  "TransitGatewayAttachmentStateDeleted = ''deleted''"
definition CarrierGatewayStateDeleted :: string where
  "CarrierGatewayStateDeleted = ''deleted''"
definition errCodeInvalidCarrierGatewayIDNotFound :: string where
  "errCodeInvalidCarrierGatewayIDNotFound = ''InvalidCarrierGatewayID.NotFound''"
definition ec2_ServiceName :: string where
  "ec2_ServiceName = ''ec2''"

text \<open>
  The connection. The finders \<open>ec2DescribeTransitGatewayPeeringAttachment\<close> and
  \<open>findCarrierGatewayByID\<close>, the deletion waiters and \<open>keyvaluetags.Ec2UpdateTags\<close>
  (identifier, old tags, new tags) are not among the source files: their results belong to
  the environment, as the answers of the API do.
\<close>

record EC2Conn =
  ec2DescribeTransitGatewayPeeringAttachment ::
    "string \<Rightarrow> TransitGatewayPeeringAttachment option \<times> error option"
  DeleteTransitGatewayPeeringAttachment :: "string \<Rightarrow> error option"
  waitForEc2TransitGatewayPeeringAttachmentDeletion :: "string \<Rightarrow> error option"
  Ec2UpdateTags :: "string \<Rightarrow> val \<Rightarrow> val \<Rightarrow> error option"
  findCarrierGatewayByID :: "string \<Rightarrow> CarrierGateway option \<times> error option"
  DeleteCarrierGateway :: "string \<Rightarrow> error option"
  waitCarrierGatewayDeleted :: "string \<Rightarrow> error option"

definition resourceAwsEc2TransitGatewayPeeringAttachmentRead ::
  "AWSClient \<Rightarrow> EC2Conn \<Rightarrow> ResourceData \<Rightarrow> ResourceData \<times> error option" where
  "resourceAwsEc2TransitGatewayPeeringAttachmentRead meta conn d =
     (case ec2DescribeTransitGatewayPeeringAttachment conn (Id d) of
        (transitGatewayPeeringAttachment, err) \<Rightarrow>
          if ErrMessageContains err ''InvalidTransitGatewayAttachmentID.NotFound'' []
          then (SetId d [], None)
          else
            (case err of
               Some e \<Rightarrow>
                 (d, Some (ErrorfS ''error reading EC2 Transit Gateway Peering Attachment: '' e))
             | None \<Rightarrow>
                 (case transitGatewayPeeringAttachment of
                    None \<Rightarrow> (SetId d [], None)
                  | Some a \<Rightarrow>
                      if StringValue (tgwa_State a) = TransitGatewayAttachmentStateDeleting
                         \<or> StringValue (tgwa_State a) = TransitGatewayAttachmentStateDeleted
                      then (SetId d [], None)
                      else
                        (let d1 = SetStringPtr d ''peer_account_id''
                                    (tgw_OwnerId (AccepterTgwInfo a));
                             d2 = SetStringPtr d1 ''peer_region'' (tgw_Region (AccepterTgwInfo a));
                             d3 = SetStringPtr d2 ''peer_transit_gateway_id''
                                    (tgw_TransitGatewayId (AccepterTgwInfo a));
                             d4 = SetStringPtr d3 ''transit_gateway_id''
                                    (tgw_TransitGatewayId (RequesterTgwInfo a));
                             tags = IgnoreTags meta (tgwa_Tags a);
                             d5 = SetAttr d4 ''tags'' (VPairs (RemoveDefaultTags meta tags))
                         in (SetAttr d5 ''tags_all'' (VPairs tags), None)))))"

definition resourceAwsEc2TransitGatewayPeeringAttachmentUpdate ::
  "EC2Conn \<Rightarrow> ResourceData \<Rightarrow> ResourceData \<times> error option" where
  "resourceAwsEc2TransitGatewayPeeringAttachmentUpdate conn d =
     (if HasChange d ''tags_all''
      then (case Ec2UpdateTags conn (Id d) (prior d ''tags_all'') (attrs d ''tags_all'') of
              Some err \<Rightarrow>
                (d, Some (ErrorfS (''error updating EC2 Transit Gateway Peering Attachment (''
                                    @ Id d @ '') tags: '') err))
            | None \<Rightarrow> (d, None))
      else (d, None))"

definition resourceAwsEc2TransitGatewayPeeringAttachmentDelete ::
  "EC2Conn \<Rightarrow> ResourceData \<Rightarrow> error option" where
  "resourceAwsEc2TransitGatewayPeeringAttachmentDelete conn d =
     (let err = DeleteTransitGatewayPeeringAttachment conn (Id d)
      in if ErrMessageContains err ''InvalidTransitGatewayAttachmentID.NotFound'' [] then None
         else
           (case err of
              Some e \<Rightarrow>
                Some (ErrorfS ''error deleting EC2 Transit Gateway Peering Attachment: '' e)
            | None \<Rightarrow>
                (case waitForEc2TransitGatewayPeeringAttachmentDeletion conn (Id d) of
                   Some e \<Rightarrow>
                     Some (ErrorfS (''error waiting for EC2 Transit Gateway Peering Attachment (''
                                     @ Id d @ '') deletion: '') e)
                 | None \<Rightarrow> None)))"

definition resourceAwsEc2CarrierGatewayRead ::
  "AWSClient \<Rightarrow> EC2Conn \<Rightarrow> ResourceData \<Rightarrow> ResourceData \<times> error option" where
  "resourceAwsEc2CarrierGatewayRead meta conn d =
     (case findCarrierGatewayByID conn (Id d) of
        (carrierGateway, err) \<Rightarrow>
          if ErrCodeEquals err errCodeInvalidCarrierGatewayIDNotFound then (SetId d [], None)
          else
            (case err of
               Some e \<Rightarrow>
                 (d, Some (ErrorfW (''error reading EC2 Carrier Gateway ('' @ Id d @ ''): '') e))
             | None \<Rightarrow>
                 (case carrierGateway of
                    None \<Rightarrow> (SetId d [], None)
                  | Some g \<Rightarrow>
                      if StringValue (cg_State g) = CarrierGatewayStateDeleted
                      then (SetId d [], None)
                      else
                        (let arn = arn_String (Partition meta) ec2_ServiceName (Region meta)
                                     (StringValue (cg_OwnerId g)) (''carrier-gateway/'' @ Id d);
                             d1 = SetAttr d ''arn'' (VStr arn);
                             d2 = SetStringPtr d1 ''owner_id'' (cg_OwnerId g);
                             d3 = SetStringPtr d2 ''vpc_id'' (cg_VpcId g);
                             tags = IgnoreTags meta (cg_Tags g);
                             d4 = SetAttr d3 ''tags'' (VPairs (RemoveDefaultTags meta tags))
                         in (SetAttr d4 ''tags_all'' (VPairs tags), None)))))"

definition resourceAwsEc2CarrierGatewayUpdate ::
  "AWSClient \<Rightarrow> EC2Conn \<Rightarrow> ResourceData \<Rightarrow> ResourceData \<times> error option" where
  "resourceAwsEc2CarrierGatewayUpdate meta conn d =
     (case (if HasChange d ''tags_all''
            then Ec2UpdateTags conn (Id d) (prior d ''tags_all'') (attrs d ''tags_all'')
            else None) of
        Some err \<Rightarrow>
          (d, Some (ErrorfW (''error updating EC2 Carrier Gateway ('' @ Id d @ '') tags: '') err))
      | None \<Rightarrow> resourceAwsEc2CarrierGatewayRead meta conn d)"

definition resourceAwsEc2CarrierGatewayDelete :: "EC2Conn \<Rightarrow> ResourceData \<Rightarrow> error option" where
  "resourceAwsEc2CarrierGatewayDelete conn d =
     (let err = DeleteCarrierGateway conn (Id d)
      in if ErrCodeEquals err errCodeInvalidCarrierGatewayIDNotFound then None
         else
           (case err of
              Some e \<Rightarrow>
                Some (ErrorfW (''error deleting EC2 Carrier Gateway ('' @ Id d @ ''): '') e)
            | None \<Rightarrow>
                (case waitCarrierGatewayDeleted conn (Id d) of
                   Some e \<Rightarrow>
                     Some (ErrorfW (''error waiting for EC2 Carrier Gateway ('' @ Id d
                                     @ '') to be deleted: '') e)
                 | None \<Rightarrow> None)))"


subsection \<open>GameLift alias\<close>

record RoutingStrategy =
  rs_FleetId :: "string option"
  rs_Message :: "string option"
  rs_Type :: "string option"

record Alias =
  AliasArn :: "string option"
  alias_Description :: "string option"
  alias_Name :: "string option"
  alias_RoutingStrategy :: "RoutingStrategy option"

record UpdateAliasInput =
  ua_AliasId :: "string option"
  ua_Name :: "string option"
  ua_Description :: "string option"
  ua_RoutingStrategy :: "RoutingStrategy option"

definition gamelift_ErrCodeNotFoundException :: string where
  "gamelift_ErrCodeNotFoundException = ''NotFoundException''"

text \<open>
  The connection; \<open>keyvaluetags.GameliftListTags\<close> and \<open>GameliftUpdateTags\<close> are not among
  the source files.
\<close>

record GameLiftConn =
  DescribeAlias :: "string \<Rightarrow> error + Alias"
  UpdateAlias :: "UpdateAliasInput \<Rightarrow> error option"
  GameliftListTags :: "string \<Rightarrow> error + (string \<times> string) list"
  GameliftUpdateTags :: "string \<Rightarrow> val \<Rightarrow> val \<Rightarrow> error option"

text \<open>
  A nested object is the list of its keys with their values; \<open>map_of\<close> looks a key up.
  Where the source dereferences the type of a routing strategy or asserts it to be a
  string, and would panic on nil, the model reads the empty string.
\<close>

definition expandGameliftRoutingStrategy ::
  "(string \<times> string) list list \<Rightarrow> RoutingStrategy option" where
  "expandGameliftRoutingStrategy cfg =
     (case cfg of
        [] \<Rightarrow> None
      | strategy # others \<Rightarrow>
          Some \<lparr>rs_FleetId = (case map_of strategy ''fleet_id'' of
                                None \<Rightarrow> None
                              | Some v \<Rightarrow> if length v > 0 then Some v else None),
                rs_Message = (case map_of strategy ''message'' of
                                None \<Rightarrow> None
                              | Some v \<Rightarrow> if length v > 0 then Some v else None),
                rs_Type = Some (StringValue (map_of strategy ''type''))\<rparr>)"

definition flattenGameliftRoutingStrategy ::
  "RoutingStrategy option \<Rightarrow> (string \<times> string) list list" where
  "flattenGameliftRoutingStrategy rs =
     (case rs of
        None \<Rightarrow> []
      | Some r \<Rightarrow>
          [(case rs_FleetId r of None \<Rightarrow> [] | Some v \<Rightarrow> [(''fleet_id'', v)])
           @ (case rs_Message r of None \<Rightarrow> [] | Some v \<Rightarrow> [(''message'', v)])
           @ [(''type'', StringValue (rs_Type r))]])"

definition resourceAwsGameliftAliasRead ::
  "AWSClient \<Rightarrow> GameLiftConn \<Rightarrow> ResourceData \<Rightarrow> ResourceData \<times> error option" where
  "resourceAwsGameliftAliasRead meta conn d =
     (case DescribeAlias conn (Id d) of
        Inl err \<Rightarrow>
          if ErrMessageContains (Some err) gamelift_ErrCodeNotFoundException []
          then (SetId d [], None)
          else (d, Some err)
      | Inr a \<Rightarrow>
          (let arn = StringValue (AliasArn a);
               d1 = SetAttr d ''arn'' (VStr arn);
               d2 = SetStringPtr d1 ''description'' (alias_Description a);
               d3 = SetStringPtr d2 ''name'' (alias_Name a);
               d4 = SetAttr d3 ''routing_strategy''
                      (VMaps (flattenGameliftRoutingStrategy (alias_RoutingStrategy a)))
           in case GameliftListTags conn arn of
                Inl err \<Rightarrow>
                  (d4, Some (ErrorfS (''error listing tags for Game Lift Alias ('' @ arn @ ''): '')
                               err))
              | Inr listed \<Rightarrow>
                  (let tags = IgnoreTags meta listed;
                       d5 = SetAttr d4 ''tags'' (VPairs (RemoveDefaultTags meta tags))
                   in (SetAttr d5 ''tags_all'' (VPairs tags), None))))"

definition resourceAwsGameliftAliasUpdate ::
  "AWSClient \<Rightarrow> GameLiftConn \<Rightarrow> ResourceData \<Rightarrow> ResourceData \<times> error option" where
  "resourceAwsGameliftAliasUpdate meta conn d =
     (case UpdateAlias conn
             \<lparr>ua_AliasId = Some (Id d),
              ua_Name = Some (GetString d ''name''),
              ua_Description = Some (GetString d ''description''),
              ua_RoutingStrategy =
                expandGameliftRoutingStrategy (GetMaps d ''routing_strategy'')\<rparr> of
        Some err \<Rightarrow> (d, Some err)
      | None \<Rightarrow>
          (let arn = GetString d ''arn''
           in case (if HasChange d ''tags_all''
                    then GameliftUpdateTags conn arn (prior d ''tags_all'') (attrs d ''tags_all'')
                    else None) of
                Some err \<Rightarrow>
                  (d, Some (ErrorfS (''error updating Game Lift Alias ('' @ arn @ '') tags: '')
                              err))
              | None \<Rightarrow> resourceAwsGameliftAliasRead meta conn d))"


subsection \<open>Route 53 Resolver rule data source\<close>











section \<open>Classes of answers and concrete environments\<close>

text \<open>
  The errors the Service Catalog constraint handlers retry: Create retries the
  invalid-parameters error whose message contains ``profile does not exist'' and the
  resource-not-found error; Update retries only the former.
\<close>

definition create_retryable :: "error option \<Rightarrow> bool" where
  "create_retryable err =
     (ErrMessageContains err ErrCodeInvalidParametersException ''profile does not exist''
      \<or> ErrCodeEquals err ErrCodeResourceNotFoundException)"

definition update_retryable :: "error option \<Rightarrow> bool" where
  "update_retryable err =
     ErrMessageContains err ErrCodeInvalidParametersException ''profile does not exist''"

text \<open>The result of a retried function after which \<open>Retry\<close> calls it again.\<close>

definition retries_again :: "RetryError option \<times> 'a \<Rightarrow> bool" where
  "retries_again r = (case fst r of None \<Rightarrow> False | Some rerr \<Rightarrow> Retryable rerr)"

text \<open>Resource data with the given identifier and attributes, and a prior state without values.\<close>

definition example_data :: "string \<Rightarrow> bool \<Rightarrow> (string \<times> val) list \<Rightarrow> ResourceData" where
  "example_data ident new kvs =
     \<lparr>Id = ident,
      attrs = (\<lambda>k. case map_of kvs k of None \<Rightarrow> VStr [] | Some v \<Rightarrow> v),
      prior = (\<lambda>k. VStr []),
      IsNewResource = new\<rparr>"

definition example_meta :: AWSClient where
  "example_meta =
     \<lparr>AccountID = ''123456789012'', Partition = ''aws'', Region = ''eu-west-1'',
      IgnoreTags = (\<lambda>tags. tags), RemoveDefaultTags = (\<lambda>tags. tags)\<rparr>"


text \<open>
  A describe connection that answers the calls before the \<open>k0\<close>-th with the pages \<open>early\<close>
  and every later call with the pages \<open>late\<close>.
\<close>

definition fsx_conn_switch ::
  "nat \<Rightarrow> DescribeFileSystemsPages \<Rightarrow> DescribeFileSystemsPages \<Rightarrow> nat \<Rightarrow> DescribeFileSystemsPages" where
  "fsx_conn_switch k0 early late = (\<lambda>k. if k < k0 then early else late)"

text \<open>The page of a describe request that fails with the not-found error of the service.\<close>

definition fsx_pages_not_found :: DescribeFileSystemsPages where
  "fsx_pages_not_found = [Inl (AwsError ''FileSystemNotFound'' ''no such file system'')]"


text \<open>Connections on which the resource is gone: every request reports not found.\<close>

definition ec2_conn_gone :: EC2Conn where
  "ec2_conn_gone =
     \<lparr>ec2DescribeTransitGatewayPeeringAttachment =
        (\<lambda>i. (None, Some (AwsError ''InvalidTransitGatewayAttachmentID.NotFound'' ''not found''))),
      DeleteTransitGatewayPeeringAttachment =
        (\<lambda>i. Some (AwsError ''InvalidTransitGatewayAttachmentID.NotFound'' ''not found'')),
      waitForEc2TransitGatewayPeeringAttachmentDeletion = (\<lambda>i. None),
      Ec2UpdateTags = (\<lambda>i old new. None),
      findCarrierGatewayByID =
        (\<lambda>i. (None, Some (AwsError ''InvalidCarrierGatewayID.NotFound'' ''not found''))),
      DeleteCarrierGateway =
        (\<lambda>i. Some (AwsError ''InvalidCarrierGatewayID.NotFound'' ''not found'')),
      waitCarrierGatewayDeleted = (\<lambda>i. None)\<rparr>"

definition dax_conn_gone :: DAXConn where
  "dax_conn_gone =
     \<lparr>CreateParameterGroup = (\<lambda>i. None),
      DescribeParameterGroups =
        (\<lambda>names. Inl (AwsError ''ParameterGroupNotFoundFault'' ''not found'')),
      DescribeParameters = (\<lambda>name. Inl (AwsError ''ParameterGroupNotFoundFault'' ''not found'')),
      UpdateParameterGroup = (\<lambda>i. None),
      DeleteParameterGroup =
        (\<lambda>name. Some (AwsError ''ParameterGroupNotFoundFault'' ''not found''))\<rparr>"

definition sc_conn_gone :: ServiceCatalogConn where
  "sc_conn_gone =
     \<lparr>CreateConstraint =
        (\<lambda>k i. (None, Some (AwsError ''ResourceNotFoundException'' ''not found''))),
      UpdateConstraint =
        (\<lambda>k i. if k = 0 then Some (AwsError ''ResourceNotFoundException'' ''not found'')
                else None),
      DeleteConstraint = (\<lambda>i. Some (AwsError ''ResourceNotFoundException'' ''not found'')),
      waitConstraintReady = (\<lambda>lang i. (None, Some (NotFoundError None))),
      waitConstraintDeleted = (\<lambda>lang i. None),
      UniqueId = ''terraform-0001''\<rparr>"

definition ses_conn_gone :: SESConn where
  "ses_conn_gone =
     \<lparr>SetActiveReceiptRuleSet = (\<lambda>name. None),
      DescribeActiveReceiptRuleSet = Inl (AwsError ''RuleSetDoesNotExist'' ''not found'')\<rparr>"

definition gamelift_conn_gone :: GameLiftConn where
  "gamelift_conn_gone =
     \<lparr>DescribeAlias = (\<lambda>i. Inl (AwsError ''NotFoundException'' ''not found'')),
      UpdateAlias = (\<lambda>i. None),
      GameliftListTags = (\<lambda>arn. Inr []),
      GameliftUpdateTags = (\<lambda>arn old new. None)\<rparr>"



text \<open>Connections on which the resource is there.\<close>

definition securityhub_conn_ok :: SecurityHubConn where
  "securityhub_conn_ok =
     \<lparr>UpdateOrganizationConfiguration = (\<lambda>b. None),
      DescribeOrganizationConfiguration = Inr \<lparr>AutoEnable = Some True\<rparr>\<rparr>"

definition ses_conn_active :: "string \<Rightarrow> SESConn" where
  "ses_conn_active name =
     \<lparr>SetActiveReceiptRuleSet = (\<lambda>n. None),
      DescribeActiveReceiptRuleSet = Inr (Some \<lparr>Name = Some name\<rparr>)\<rparr>"

text \<open>
  A DAX service that holds the group \<open>group-1\<close> with the default description (one space)
  and one parameter.
\<close>

definition dax_conn_group :: DAXConn where
  "dax_conn_group =
     \<lparr>CreateParameterGroup = (\<lambda>i. None),
      DescribeParameterGroups =
        (\<lambda>names. Inr [\<lparr>ParameterGroupName = Some ''group-1'', Description = Some '' ''\<rparr>]),
      DescribeParameters =
        (\<lambda>name. Inr [\<lparr>ParameterName = Some ''query-ttl-millis'',
                         ParameterValue = Some ''1000''\<rparr>]),
      UpdateParameterGroup = (\<lambda>i. None),
      DeleteParameterGroup = (\<lambda>name. None)\<rparr>"


text \<open>
  A Service Catalog service that answers the first two create and update requests with a
  propagation error and every later one with another error: access denied for Create,
  resource not found for Update.
\<close>

definition sc_conn_flaky :: ServiceCatalogConn where
  "sc_conn_flaky =
     \<lparr>CreateConstraint =
        (\<lambda>k i. if k = 0
                then (None, Some (AwsError ''InvalidParametersException''
                                    ''the profile does not exist yet''))
                else if k = 1
                then (None, Some (AwsError ''ResourceNotFoundException'' ''no such portfolio''))
                else (None, Some (AwsError ''AccessDeniedException'' ''denied''))),
      UpdateConstraint =
        (\<lambda>k i. if k < 2
                then Some (AwsError ''InvalidParametersException''
                             ''the profile does not exist yet'')
                else Some (AwsError ''ResourceNotFoundException'' ''no such constraint'')),
      DeleteConstraint = (\<lambda>i. None),
      waitConstraintReady = (\<lambda>lang i. (None, Some (NotFoundError None))),
      waitConstraintDeleted = (\<lambda>lang i. None),
      UniqueId = ''terraform-0002''\<rparr>"


text \<open>A file system in the given lifecycle state, for the concrete runs below.\<close>

definition example_fs :: "string \<Rightarrow> string option \<Rightarrow> FileSystem" where
  "example_fs st failure =
     \<lparr>FileSystemId = Some ''fs-1'', Lifecycle = Some st,
      FailureDetails = map_option (\<lambda>m. \<lparr>Message = Some m\<rparr>) failure,
      AdministrativeActions = []\<rparr>"


section \<open>Properties of the lifecycle poller\<close>

lemma SetLastError_Some: "\<exists>y. SetLastError (Some e) l = Some y"
  by (cases "(Some e, l)" rule: SetLastError.cases) auto

lemma refresh_not_found:
  "ErrMessageContains (snd (describeFsxFileSystem conn ident k)) ErrCodeFileSystemNotFound [] \<Longrightarrow>
   refreshFsxFileSystemLifecycle conn ident k = (None, [], None)"
  by (cases "describeFsxFileSystem conn ident k") (simp add: refreshFsxFileSystemLifecycle_def)



text \<open>
  While the polls show the resource in a pending state the loop goes on: after \<open>k + 1\<close>
  such polls it has used \<open>k + 1\<close> ticks, no absence is counted, and the state seen last is
  that of poll \<open>k\<close>.
\<close>

lemma loop_pending_polls:
  "\<forall>i\<le>k. observed_pending p t (refresh (s + i)) \<Longrightarrow> k < n \<Longrightarrow>
   WaitForState_loop p t refresh n s tick ls
     = WaitForState_loop p t refresh (n - Suc k) (s + Suc k) 0 (fst (snd (refresh (s + k))))"
proof (induction k arbitrary: n s tick ls)
  case 0
  then obtain m where m: "n = Suc m" by (cases n) auto
  from 0 have "observed_pending p t (refresh s)" by simp
  then obtain r st where "refresh s = (Some r, st, None)" "st \<notin> set t" "st \<in> set p"
    by (cases "refresh s") (auto simp: observed_pending_def)
  then show ?case using m by simp
next
  case (Suc k)
  then obtain m where m: "n = Suc m" and km: "k < m" by (cases n) auto
  from Suc.prems(1) have "observed_pending p t (refresh (s + 0))" by blast
  then obtain r st where rs: "refresh s = (Some r, st, None)" "st \<notin> set t" "st \<in> set p"
    by (cases "refresh s") (auto simp: observed_pending_def)
  have rest: "\<forall>i\<le>k. observed_pending p t (refresh (Suc s + i))"
  proof (intro allI impI)
    fix i assume "i \<le> k"
    then have "Suc i \<le> Suc k" by simp
    with Suc.prems(1) have "observed_pending p t (refresh (s + Suc i))" by blast
    then show "observed_pending p t (refresh (Suc s + i))" by simp
  qed
  show ?case using Suc.IH[OF rest km, of 0 st] rs m by simp
qed

lemma loop_pending_prefix:
  assumes "\<forall>i<k. observed_pending p t (refresh i)" and "k \<le> n"
  shows "\<exists>tick' ls'. WaitForState_loop p t refresh n 0 tick ls
                      = WaitForState_loop p t refresh (n - k) k tick' ls'"
proof (cases k)
  case 0
  then show ?thesis by auto
next
  case (Suc j)
  have a: "\<forall>i\<le>j. observed_pending p t (refresh (0 + i))" using assms(1) Suc by simp
  have b: "j < n" using assms(2) Suc by simp
  show ?thesis using loop_pending_polls[OF a b, of tick ls] Suc by auto
qed


text \<open>A poll that ends the loop with success moves the count of calls on.\<close>

lemma loop_success_calls:
  "WaitForState_loop p t refresh n s tick ls = (res, None, c) \<Longrightarrow> s < c"
proof (induction n arbitrary: s tick ls)
  case 0
  then show ?case by simp
next
  case (Suc n)
  obtain r st e where rs: "refresh s = (r, st, e)" by (cases "refresh s")
  show ?case
  proof (cases e)
    case (Some err)
    then show ?thesis using Suc.prems rs by (cases r) simp_all
  next
    case None
    show ?thesis
    proof (cases r)
      case rn: None
      show ?thesis
      proof (cases "t = [] \<or> Suc tick > NotFoundChecks")
        case True
        then show ?thesis using Suc.prems rs None rn by (auto split: if_splits)
      next
        case False
        then have "WaitForState_loop p t refresh n (Suc s) (Suc tick) st = (res, None, c)"
          using Suc.prems rs None rn by simp
        from Suc.IH[OF this] show ?thesis by simp
      qed
    next
      case (Some x)
      show ?thesis
      proof (cases "st \<in> set t \<or> (st \<notin> set p \<and> p \<noteq> [])")
        case True
        then show ?thesis using Suc.prems rs None Some by (auto split: if_splits)
      next
        case False
        then have "WaitForState_loop p t refresh n (Suc s) 0 st = (res, None, c)"
          using Suc.prems rs None Some by (auto split: if_splits)
        from Suc.IH[OF this] show ?thesis by simp
      qed
    qed
  qed
qed

text \<open>While a target state is awaited, a resource that stays absent never ends in success.\<close>

lemma loop_absent_nonempty_target:
  "\<forall>j\<ge>s. refresh j = (None, [], None) \<Longrightarrow> t \<noteq> [] \<Longrightarrow>
   fst (snd (WaitForState_loop p t refresh n s tick ls)) \<noteq> None"
proof (induction n arbitrary: s tick ls)
  case 0
  then show ?case by simp
next
  case (Suc n)
  have rs: "refresh s = (None, [], None)" using Suc.prems(1) by simp
  have rest: "\<forall>j\<ge>Suc s. refresh j = (None, [], None)" using Suc.prems(1) by simp
  show ?case using Suc.IH[OF rest Suc.prems(2), of "Suc tick" "[]"] rs Suc.prems(2) by simp
qed

lemma loop_absent_at:
  assumes pend: "\<forall>i<k. observed_pending p t (refresh i)"
    and absent: "refresh k = (None, [], None)"
    and k: "k < n"
  shows "(\<exists>res. WaitForState_loop p t refresh n 0 0 [] = (res, None, Suc k)) = (t = [])"
    and "t = [] \<Longrightarrow> WaitForState_loop p t refresh n 0 0 [] = (None, None, Suc k)"
proof -
  obtain tick' ls' where pre: "WaitForState_loop p t refresh n 0 0 []
                      = WaitForState_loop p t refresh (n - k) k tick' ls'"
    using loop_pending_prefix[OF pend, of n 0 "[]"] k by auto
  obtain m where m: "n - k = Suc m" using k by (cases "n - k") auto
  show stop: "t = [] \<Longrightarrow> WaitForState_loop p t refresh n 0 0 [] = (None, None, Suc k)"
    using pre m absent by simp
  show "(\<exists>res. WaitForState_loop p t refresh n 0 0 [] = (res, None, Suc k)) = (t = [])"
  proof (cases "t = []")
    case True
    then show ?thesis using stop by simp
  next
    case False
    have "WaitForState_loop p t refresh n 0 0 [] \<noteq> (res, None, Suc k)" for res
    proof (cases "Suc tick' > NotFoundChecks")
      case True
      then show ?thesis using pre m absent False by simp
    next
      case nt: False
      then have eq: "WaitForState_loop p t refresh n 0 0 []
                = WaitForState_loop p t refresh m (Suc k) (Suc tick') []"
        using pre m absent False by simp
      show ?thesis
      proof
        assume "WaitForState_loop p t refresh n 0 0 [] = (res, None, Suc k)"
        then have "WaitForState_loop p t refresh m (Suc k) (Suc tick') [] = (res, None, Suc k)"
          using eq by simp
        from loop_success_calls[OF this] show False by simp
      qed
    qed
    then show ?thesis using False by simp
  qed
qed

lemma loop_absent_from:
  assumes pend: "\<forall>i<k. observed_pending p t (refresh i)"
    and absent: "\<forall>j\<ge>k. refresh j = (None, [], None)"
    and k: "k < n"
  shows "(fst (snd (WaitForState_loop p t refresh n 0 0 [])) = None) = (t = [])"
proof -
  obtain tick' ls' where pre: "WaitForState_loop p t refresh n 0 0 []
                      = WaitForState_loop p t refresh (n - k) k tick' ls'"
    using loop_pending_prefix[OF pend, of n 0 "[]"] k by auto
  show ?thesis
  proof (cases "t = []")
    case True
    have "refresh k = (None, [], None)" using absent by simp
    from loop_absent_at(2)[OF pend this k True] show ?thesis using True by simp
  next
    case False
    then show ?thesis using pre loop_absent_nonempty_target[OF absent False, of p "n - k" tick' ls']
      by simp
  qed
qed


lemma creation_absent_fails:
  assumes "\<forall>i<k. observed_pending [FileSystemLifecycleCreating] [FileSystemLifecycleAvailable]
                    (refreshFsxFileSystemLifecycle conn ident i)"
    and "\<forall>j\<ge>k. ErrMessageContains (snd (describeFsxFileSystem conn ident j))
                   ErrCodeFileSystemNotFound []"
    and "k < n"
  shows "fst (waitForFsxFileSystemCreation conn ident n) \<noteq> None"
proof -
  have r: "\<forall>j\<ge>k. refreshFsxFileSystemLifecycle conn ident j = (None, [], None)"
    using assms(2) by (simp add: refresh_not_found)
  have "fst (snd (WaitForState_loop [FileSystemLifecycleCreating] [FileSystemLifecycleAvailable]
                    (refreshFsxFileSystemLifecycle conn ident) n 0 0 [])) \<noteq> None"
    using loop_absent_from[OF assms(1) r assms(3)] by simp
  then obtain res e c where
    "WaitForState_loop [FileSystemLifecycleCreating] [FileSystemLifecycleAvailable]
       (refreshFsxFileSystemLifecycle conn ident) n 0 0 [] = (res, Some e, c)"
    by (cases "WaitForState_loop [FileSystemLifecycleCreating] [FileSystemLifecycleAvailable]
                 (refreshFsxFileSystemLifecycle conn ident) n 0 0 []") auto
  then show ?thesis
    using SetLastError_Some[of e]
    by (auto simp: waitForFsxFileSystemCreation_def WaitForState_def split: option.splits)
qed

text \<open>
  Claim C1. Let the first \<open>k\<close> polls find the file system in a pending state (\<open>k\<close> may be
  zero) and let the describe call of poll \<open>k\<close>, still within the timeout, report it not
  found. Then the loop stops at that poll with success if and only if its target set is
  empty. When the file system stays not found from poll \<open>k\<close> on, the loop ends in success
  at all if and only if the target set is empty. So the deletion waiter (empty target set)
  returns success at the poll that reports not found, and the creation waiter (target
  AVAILABLE) returns an error.
\<close>

theorem absence_is_success_iff_target_empty:
  "((\<forall>i<k1. observed_pending p1 t1 (refreshFsxFileSystemLifecycle conn1 ident1 i))
      \<and> ErrMessageContains (snd (describeFsxFileSystem conn1 ident1 k1))
            ErrCodeFileSystemNotFound []
      \<and> k1 < n1
    \<longrightarrow> ((\<exists>res. WaitForState \<lparr>Pending = p1, Target = t1, Timeout = n1\<rparr>
                   (refreshFsxFileSystemLifecycle conn1 ident1) = (res, None, Suc k1))
          = (t1 = [])))
 \<and> ((\<forall>i<k2. observed_pending p2 t2 (refreshFsxFileSystemLifecycle conn2 ident2 i))
      \<and> (\<forall>j\<ge>k2. ErrMessageContains (snd (describeFsxFileSystem conn2 ident2 j))
                     ErrCodeFileSystemNotFound [])
      \<and> k2 < n2
    \<longrightarrow> ((fst (snd (WaitForState \<lparr>Pending = p2, Target = t2, Timeout = n2\<rparr>
                       (refreshFsxFileSystemLifecycle conn2 ident2))) = None)
          = (t2 = [])))
 \<and> ((\<forall>i<k3. observed_pending [FileSystemLifecycleAvailable, FileSystemLifecycleDeleting] []
               (refreshFsxFileSystemLifecycle conn3 ident3 i))
      \<and> ErrMessageContains (snd (describeFsxFileSystem conn3 ident3 k3))
            ErrCodeFileSystemNotFound []
      \<and> k3 < n3
    \<longrightarrow> waitForFsxFileSystemDeletion conn3 ident3 n3 = (None, Suc k3))
 \<and> ((\<forall>i<k4. observed_pending [FileSystemLifecycleCreating] [FileSystemLifecycleAvailable]
               (refreshFsxFileSystemLifecycle conn4 ident4 i))
      \<and> (\<forall>j\<ge>k4. ErrMessageContains (snd (describeFsxFileSystem conn4 ident4 j))
                     ErrCodeFileSystemNotFound [])
      \<and> k4 < n4
    \<longrightarrow> fst (waitForFsxFileSystemCreation conn4 ident4 n4) \<noteq> None)"
proof (intro conjI impI)
  assume h: "(\<forall>i<k1. observed_pending p1 t1 (refreshFsxFileSystemLifecycle conn1 ident1 i))
      \<and> ErrMessageContains (snd (describeFsxFileSystem conn1 ident1 k1))
            ErrCodeFileSystemNotFound []
      \<and> k1 < n1"
  then have r: "refreshFsxFileSystemLifecycle conn1 ident1 k1 = (None, [], None)"
    by (simp add: refresh_not_found)
  show "(\<exists>res. WaitForState \<lparr>Pending = p1, Target = t1, Timeout = n1\<rparr>
                   (refreshFsxFileSystemLifecycle conn1 ident1) = (res, None, Suc k1))
          = (t1 = [])"
    using loop_absent_at(1)[where refresh = "refreshFsxFileSystemLifecycle conn1 ident1"
                               and p = p1 and t = t1 and k = k1 and n = n1] r h
    by (simp add: WaitForState_def)
next
  assume h: "(\<forall>i<k2. observed_pending p2 t2 (refreshFsxFileSystemLifecycle conn2 ident2 i))
      \<and> (\<forall>j\<ge>k2. ErrMessageContains (snd (describeFsxFileSystem conn2 ident2 j))
                     ErrCodeFileSystemNotFound [])
      \<and> k2 < n2"
  then have r: "\<forall>j\<ge>k2. refreshFsxFileSystemLifecycle conn2 ident2 j = (None, [], None)"
    by (simp add: refresh_not_found)
  show "(fst (snd (WaitForState \<lparr>Pending = p2, Target = t2, Timeout = n2\<rparr>
                       (refreshFsxFileSystemLifecycle conn2 ident2))) = None)
          = (t2 = [])"
    using loop_absent_from[where refresh = "refreshFsxFileSystemLifecycle conn2 ident2"
                              and p = p2 and t = t2 and k = k2 and n = n2] r h
    by (simp add: WaitForState_def)
next
  assume h: "(\<forall>i<k3. observed_pending [FileSystemLifecycleAvailable, FileSystemLifecycleDeleting] []
               (refreshFsxFileSystemLifecycle conn3 ident3 i))
      \<and> ErrMessageContains (snd (describeFsxFileSystem conn3 ident3 k3))
            ErrCodeFileSystemNotFound []
      \<and> k3 < n3"
  then have r: "refreshFsxFileSystemLifecycle conn3 ident3 k3 = (None, [], None)"
    by (simp add: refresh_not_found)
  have "WaitForState_loop [FileSystemLifecycleAvailable, FileSystemLifecycleDeleting] []
          (refreshFsxFileSystemLifecycle conn3 ident3) n3 0 0 [] = (None, None, Suc k3)"
    using loop_absent_at(2)[where refresh = "refreshFsxFileSystemLifecycle conn3 ident3"
                               and p = "[FileSystemLifecycleAvailable, FileSystemLifecycleDeleting]"
                               and t = "[]" and k = k3 and n = n3] r h
    by simp
  then show "waitForFsxFileSystemDeletion conn3 ident3 n3 = (None, Suc k3)"
    by (simp add: waitForFsxFileSystemDeletion_def WaitForState_def)
next
  assume h: "(\<forall>i<k4. observed_pending [FileSystemLifecycleCreating] [FileSystemLifecycleAvailable]
               (refreshFsxFileSystemLifecycle conn4 ident4 i))
      \<and> (\<forall>j\<ge>k4. ErrMessageContains (snd (describeFsxFileSystem conn4 ident4 j))
                     ErrCodeFileSystemNotFound [])
      \<and> k4 < n4"
  then show "fst (waitForFsxFileSystemCreation conn4 ident4 n4) \<noteq> None"
    using creation_absent_fails[of k4 conn4 ident4 n4] by blast
qed

theorem absence_is_success_iff_target_empty_witness:
  "((\<exists>res. WaitForState \<lparr>Pending = [''DELETING''], Target = [''GONE''], Timeout = 4\<rparr>
              (refreshFsxFileSystemLifecycle
                 (fsx_conn_switch 1 [Inr [example_fs ''DELETING'' None]] fsx_pages_not_found)
                 ''fs-1'') = (res, None, Suc 1))
      = ([''GONE''] = []))
 \<and> ((fst (snd (WaitForState \<lparr>Pending = [''DELETING''], Target = [], Timeout = 4\<rparr>
                  (refreshFsxFileSystemLifecycle
                     (fsx_conn_switch 1 [Inr [example_fs ''DELETING'' None]] fsx_pages_not_found)
                     ''fs-1''))) = None)
      = (([]::string list) = []))
 \<and> waitForFsxFileSystemDeletion
       (fsx_conn_switch 1 [Inr [example_fs ''DELETING'' None]] fsx_pages_not_found)
       ''fs-1'' 4 = (None, Suc 1)
 \<and> fst (waitForFsxFileSystemCreation
           (fsx_conn_switch 1 [Inr [example_fs ''CREATING'' None]] fsx_pages_not_found)
           ''fs-1'' 4) \<noteq> None"
proof -
  have h1: "(\<forall>i<1. observed_pending [''DELETING''] [''GONE'']
               (refreshFsxFileSystemLifecycle
                  (fsx_conn_switch 1 [Inr [example_fs ''DELETING'' None]] fsx_pages_not_found)
                  ''fs-1'' i))
      \<and> ErrMessageContains
           (snd (describeFsxFileSystem
                   (fsx_conn_switch 1 [Inr [example_fs ''DELETING'' None]] fsx_pages_not_found)
                   ''fs-1'' 1))
           ErrCodeFileSystemNotFound []
      \<and> (1::nat) < 4"
    by (simp add: observed_pending_def refreshFsxFileSystemLifecycle_def describeFsxFileSystem_def
        fsx_conn_switch_def fsx_pages_not_found_def ErrMessageContains_def StringValue_def
        example_fs_def ErrCodeFileSystemNotFound_def)
  have h2: "(\<forall>i<1. observed_pending [''DELETING''] []
               (refreshFsxFileSystemLifecycle
                  (fsx_conn_switch 1 [Inr [example_fs ''DELETING'' None]] fsx_pages_not_found)
                  ''fs-1'' i))
      \<and> (\<forall>j\<ge>1. ErrMessageContains
           (snd (describeFsxFileSystem
                   (fsx_conn_switch 1 [Inr [example_fs ''DELETING'' None]] fsx_pages_not_found)
                   ''fs-1'' j))
           ErrCodeFileSystemNotFound [])
      \<and> (1::nat) < 4"
    by (auto simp: observed_pending_def refreshFsxFileSystemLifecycle_def describeFsxFileSystem_def
        fsx_conn_switch_def fsx_pages_not_found_def ErrMessageContains_def StringValue_def
        example_fs_def ErrCodeFileSystemNotFound_def)
  have h3: "(\<forall>i<1. observed_pending [FileSystemLifecycleAvailable, FileSystemLifecycleDeleting] []
               (refreshFsxFileSystemLifecycle
                  (fsx_conn_switch 1 [Inr [example_fs ''DELETING'' None]] fsx_pages_not_found)
                  ''fs-1'' i))
      \<and> ErrMessageContains
           (snd (describeFsxFileSystem
                   (fsx_conn_switch 1 [Inr [example_fs ''DELETING'' None]] fsx_pages_not_found)
                   ''fs-1'' 1))
           ErrCodeFileSystemNotFound []
      \<and> (1::nat) < 4"
    by (simp add: observed_pending_def refreshFsxFileSystemLifecycle_def describeFsxFileSystem_def
        fsx_conn_switch_def fsx_pages_not_found_def ErrMessageContains_def StringValue_def
        example_fs_def ErrCodeFileSystemNotFound_def FileSystemLifecycleDeleting_def
        FileSystemLifecycleAvailable_def)
  have h4: "(\<forall>i<1. observed_pending [FileSystemLifecycleCreating] [FileSystemLifecycleAvailable]
               (refreshFsxFileSystemLifecycle
                  (fsx_conn_switch 1 [Inr [example_fs ''CREATING'' None]] fsx_pages_not_found)
                  ''fs-1'' i))
      \<and> (\<forall>j\<ge>1. ErrMessageContains
           (snd (describeFsxFileSystem
                   (fsx_conn_switch 1 [Inr [example_fs ''CREATING'' None]] fsx_pages_not_found)
                   ''fs-1'' j))
           ErrCodeFileSystemNotFound [])
      \<and> (1::nat) < 4"
    by (auto simp: observed_pending_def refreshFsxFileSystemLifecycle_def describeFsxFileSystem_def
        fsx_conn_switch_def fsx_pages_not_found_def ErrMessageContains_def StringValue_def
        example_fs_def ErrCodeFileSystemNotFound_def FileSystemLifecycleCreating_def
        FileSystemLifecycleAvailable_def)
  show ?thesis
    using h1 h2 h3 h4
      absence_is_success_iff_target_empty
        [where ?k1.0 = 1 and ?n1.0 = 4 and ?p1.0 = "[''DELETING'']" and ?t1.0 = "[''GONE'']"
           and ?ident1.0 = "''fs-1''"
           and ?conn1.0 = "fsx_conn_switch 1 [Inr [example_fs ''DELETING'' None]] fsx_pages_not_found"
           and ?k2.0 = 1 and ?n2.0 = 4 and ?p2.0 = "[''DELETING'']" and ?t2.0 = "[]"
           and ?ident2.0 = "''fs-1''"
           and ?conn2.0 = "fsx_conn_switch 1 [Inr [example_fs ''DELETING'' None]] fsx_pages_not_found"
           and ?k3.0 = 1 and ?n3.0 = 4 and ?ident3.0 = "''fs-1''"
           and ?conn3.0 = "fsx_conn_switch 1 [Inr [example_fs ''DELETING'' None]] fsx_pages_not_found"
           and ?k4.0 = 1 and ?n4.0 = 4 and ?ident4.0 = "''fs-1''"
           and ?conn4.0 = "fsx_conn_switch 1 [Inr [example_fs ''CREATING'' None]] fsx_pages_not_found"]
    by blast
qed











text \<open>
  Claim C8. With pending set CREATING and target set AVAILABLE (the creation waiter), when
  the first three describe calls find the file system in the states CREATING, CREATING and
  AVAILABLE, the waiter returns success, and it has made exactly three calls. The timeout
  must leave room for three polls.
\<close>

theorem creating_creating_available_succeeds_on_third_call:
  assumes "describeFsxFileSystem conn ident 0 = (Some fs0, None)"
    and "Lifecycle fs0 = Some ''CREATING''"
    and "describeFsxFileSystem conn ident 1 = (Some fs1, None)"
    and "Lifecycle fs1 = Some ''CREATING''"
    and "describeFsxFileSystem conn ident 2 = (Some fs2, None)"
    and "Lifecycle fs2 = Some ''AVAILABLE''"
    and "3 \<le> timeout"
  shows "waitForFsxFileSystemCreation conn ident timeout = (None, 3)"
proof -
  obtain m where m: "timeout = Suc (Suc (Suc m))"
    using assms(7) by (metis Suc_le_D numeral_3_eq_3 Suc_le_mono)
  have r0: "refreshFsxFileSystemLifecycle conn ident 0 = (Some fs0, ''CREATING'', None)"
    using assms(1,2)
    by (simp add: refreshFsxFileSystemLifecycle_def ErrMessageContains_def StringValue_def)
  have r1: "refreshFsxFileSystemLifecycle conn ident (Suc 0) = (Some fs1, ''CREATING'', None)"
    using assms(3,4)
    by (simp add: refreshFsxFileSystemLifecycle_def ErrMessageContains_def StringValue_def)
  have r2: "refreshFsxFileSystemLifecycle conn ident (Suc (Suc 0)) = (Some fs2, ''AVAILABLE'', None)"
    using assms(5,6)
    by (simp add: refreshFsxFileSystemLifecycle_def ErrMessageContains_def StringValue_def
        numeral_2_eq_2)
  show ?thesis
    by (simp add: waitForFsxFileSystemCreation_def WaitForState_def m r0 r1 r2
        FileSystemLifecycleCreating_def FileSystemLifecycleAvailable_def numeral_3_eq_3
        split: option.splits)
qed

theorem creating_creating_available_succeeds_on_third_call_witness:
  "waitForFsxFileSystemCreation
     (\<lambda>k. if k < 2 then [Inr [example_fs ''CREATING'' None]]
           else [Inr [example_fs ''AVAILABLE'' None]]) ''fs-1'' 5 = (None, 3)"
  by (rule creating_creating_available_succeeds_on_third_call
        [where ?fs0.0 = "example_fs ''CREATING'' None" and ?fs1.0 = "example_fs ''CREATING'' None"
           and ?fs2.0 = "example_fs ''AVAILABLE'' None"])
     (simp_all add: describeFsxFileSystem_def example_fs_def StringValue_def)

lemma administrativeAction_status_no_match:
  "\<forall>a. Some a \<in> set acts \<longrightarrow> StringValue (AdministrativeActionType a) \<noteq> action \<Longrightarrow>
   administrativeAction_status acts action = StatusCompleted"
  by (induction acts action rule: administrativeAction_status.induct) auto

text \<open>
  Claim C9. When the describe call finds the file system and none of its administrative
  actions has the requested type, the administrative-action refresh reports the status
  COMPLETED, which is a target state of the administrative-action waiter: the waiter
  returns success at its first poll.
\<close>

theorem missing_administrative_action_reads_completed:
  assumes d: "describeFsxFileSystem conn ident 0 = (Some fs, None)"
    and nomatch: "\<forall>a. Some a \<in> set (AdministrativeActions fs) \<longrightarrow>
                    StringValue (AdministrativeActionType a) \<noteq> action"
    and n: "0 < n"
  shows "refreshFsxFileSystemAdministrativeActionsStatusFileSystemUpdate conn ident action 0
           = (Some fs, StatusCompleted, None)
       \<and> waitForFsxFileSystemUpdateAdministrativeActionsStatusFileSystemUpdate conn ident action n
           = (None, 1)"
proof -
  have r: "refreshFsxFileSystemAdministrativeActionsStatusFileSystemUpdate conn ident action 0
           = (Some fs, StatusCompleted, None)"
    using d administrativeAction_status_no_match[OF nomatch]
    by (simp add: refreshFsxFileSystemAdministrativeActionsStatusFileSystemUpdate_def
        ErrMessageContains_def)
  obtain m where m: "n = Suc m" using n by (cases n) auto
  show ?thesis using r
    by (simp add: waitForFsxFileSystemUpdateAdministrativeActionsStatusFileSystemUpdate_def
        WaitForState_def m)
qed

theorem missing_administrative_action_reads_completed_witness:
  "refreshFsxFileSystemAdministrativeActionsStatusFileSystemUpdate
     (\<lambda>k. [Inr [\<lparr>FileSystemId = Some ''fs-1'', Lifecycle = Some ''AVAILABLE'',
                  FailureDetails = None,
                  AdministrativeActions =
                    [None, Some \<lparr>AdministrativeActionType = Some ''STORAGE_OPTIMIZATION'',
                                 Status = Some ''IN_PROGRESS''\<rparr>]\<rparr>]])
     ''fs-1'' ''FILE_SYSTEM_UPDATE'' 0
     = (Some \<lparr>FileSystemId = Some ''fs-1'', Lifecycle = Some ''AVAILABLE'',
              FailureDetails = None,
              AdministrativeActions =
                [None, Some \<lparr>AdministrativeActionType = Some ''STORAGE_OPTIMIZATION'',
                             Status = Some ''IN_PROGRESS''\<rparr>]\<rparr>,
        StatusCompleted, None)
   \<and> waitForFsxFileSystemUpdateAdministrativeActionsStatusFileSystemUpdate
     (\<lambda>k. [Inr [\<lparr>FileSystemId = Some ''fs-1'', Lifecycle = Some ''AVAILABLE'',
                  FailureDetails = None,
                  AdministrativeActions =
                    [None, Some \<lparr>AdministrativeActionType = Some ''STORAGE_OPTIMIZATION'',
                                 Status = Some ''IN_PROGRESS''\<rparr>]\<rparr>]])
     ''fs-1'' ''FILE_SYSTEM_UPDATE'' 2 = (None, 1)"
  by (rule missing_administrative_action_reads_completed)
     (simp_all add: describeFsxFileSystem_def StringValue_def)


section \<open>Properties of the resource handlers\<close>

lemma Id_simps [simp]:
  "Id (SetId d v) = v" "Id (SetAttr d k x) = Id d" "Id (SetStringPtr d k p) = Id d"
  "Id (SetBoolPtr d k b) = Id d"
  by (simp_all add: SetId_def SetAttr_def SetStringPtr_def SetBoolPtr_def)

lemma IsNewResource_simps [simp]:
  "IsNewResource (SetId d v) = IsNewResource d"
  "IsNewResource (SetAttr d k x) = IsNewResource d"
  "IsNewResource (SetStringPtr d k p) = IsNewResource d"
  by (simp_all add: SetId_def SetAttr_def SetStringPtr_def)

lemma SetId_SetId [simp]: "SetId (SetId d v) w = SetId d w"
  by (simp add: SetId_def)

lemma GetString_SetId [simp]: "GetString (SetId d v) k = GetString d k"
  by (simp add: GetString_def SetId_def)

lemma GetString_SetAttr [simp]:
  "GetString (SetAttr d k x) k'
     = (if k' = k then (case x of VStr s \<Rightarrow> s | _ \<Rightarrow> []) else GetString d k')"
  by (simp add: GetString_def SetAttr_def)

lemma GetString_SetStringPtr [simp]:
  "GetString (SetStringPtr d k p) k' = (if k' = k then StringValue p else GetString d k')"
  by (simp add: SetStringPtr_def)

lemma GetPairs_SetAttr [simp]:
  "GetPairs (SetAttr d k x) k'
     = (if k' = k then (case x of VPairs ps \<Rightarrow> ps | _ \<Rightarrow> []) else GetPairs d k')"
  by (simp add: GetPairs_def SetAttr_def)

lemma GetPairs_SetStringPtr [simp]:
  "GetPairs (SetStringPtr d k p) k' = (if k' = k then [] else GetPairs d k')"
  by (simp add: SetStringPtr_def)

lemma GetPairs_SetId [simp]: "GetPairs (SetId d v) k = GetPairs d k"
  by (simp add: GetPairs_def SetId_def)

subsection \<open>Reading an absent resource\<close>














subsection \<open>Deleting an absent resource\<close>

text \<open>
  Claim C10. When the delete request is answered with the not-found error of the service,
  the Delete of the transit gateway peering attachment, of the DAX parameter group, of
  the carrier gateway and of the Service Catalog constraint returns success.
\<close>

theorem delete_not_found_is_success:
  "(ErrMessageContains (DeleteTransitGatewayPeeringAttachment ec2 (Id d1))
       ''InvalidTransitGatewayAttachmentID.NotFound'' []
     \<longrightarrow> resourceAwsEc2TransitGatewayPeeringAttachmentDelete ec2 d1 = None)
 \<and> (ErrMessageContains (DeleteParameterGroup dax (Id d2)) ErrCodeParameterGroupNotFoundFault []
     \<longrightarrow> resourceAwsDaxParameterGroupDelete dax d2 = None)
 \<and> (ErrCodeEquals (DeleteCarrierGateway ec2 (Id d3)) errCodeInvalidCarrierGatewayIDNotFound
     \<longrightarrow> resourceAwsEc2CarrierGatewayDelete ec2 d3 = None)
 \<and> (ErrCodeEquals
       (DeleteConstraint sc \<lparr>dc_Id = Some (Id d4),
                             dc_AcceptLanguage = GetOkString d4 ''accept_language''\<rparr>)
       ErrCodeResourceNotFoundException
     \<longrightarrow> resourceAwsServiceCatalogConstraintDelete sc d4 = None)"
  by (auto simp: resourceAwsEc2TransitGatewayPeeringAttachmentDelete_def
      resourceAwsDaxParameterGroupDelete_def resourceAwsEc2CarrierGatewayDelete_def
      resourceAwsServiceCatalogConstraintDelete_def Let_def ErrMessageContains_def
      split: option.splits)

theorem delete_not_found_is_success_witness:
  "resourceAwsEc2TransitGatewayPeeringAttachmentDelete ec2_conn_gone
     (example_data ''tgw-attach-1'' False []) = None
 \<and> resourceAwsDaxParameterGroupDelete dax_conn_gone (example_data ''group-1'' False []) = None
 \<and> resourceAwsEc2CarrierGatewayDelete ec2_conn_gone (example_data ''cagw-1'' False []) = None
 \<and> resourceAwsServiceCatalogConstraintDelete sc_conn_gone (example_data ''cons-1'' False [])
     = None"
proof -
  have h1: "ErrMessageContains
              (DeleteTransitGatewayPeeringAttachment ec2_conn_gone
                 (Id (example_data ''tgw-attach-1'' False [])))
              ''InvalidTransitGatewayAttachmentID.NotFound'' []"
    by (simp add: ec2_conn_gone_def ErrMessageContains_def)
  have h2: "ErrMessageContains
              (DeleteParameterGroup dax_conn_gone (Id (example_data ''group-1'' False [])))
              ErrCodeParameterGroupNotFoundFault []"
    by (simp add: dax_conn_gone_def ErrMessageContains_def ErrCodeParameterGroupNotFoundFault_def)
  have h3: "ErrCodeEquals (DeleteCarrierGateway ec2_conn_gone (Id (example_data ''cagw-1'' False [])))
              errCodeInvalidCarrierGatewayIDNotFound"
    by (simp add: ec2_conn_gone_def ErrCodeEquals_def errCodeInvalidCarrierGatewayIDNotFound_def)
  have h4: "ErrCodeEquals
              (DeleteConstraint sc_conn_gone
                 \<lparr>dc_Id = Some (Id (example_data ''cons-1'' False [])),
                  dc_AcceptLanguage =
                    GetOkString (example_data ''cons-1'' False []) ''accept_language''\<rparr>)
              ErrCodeResourceNotFoundException"
    by (simp add: sc_conn_gone_def ErrCodeEquals_def ErrCodeResourceNotFoundException_def)
  show ?thesis
    using h1 h2 h3 h4
      delete_not_found_is_success
        [of ec2_conn_gone "example_data ''tgw-attach-1'' False []" dax_conn_gone
           "example_data ''group-1'' False []" "example_data ''cagw-1'' False []" sc_conn_gone
           "example_data ''cons-1'' False []"]
    by blast
qed

subsection \<open>Written fields are read back\<close>










subsection \<open>The identifier under Update\<close>

lemma securityhub_read_Id:
  "Id (fst (resourceAwsSecurityHubOrganizationConfigurationRead conn d)) = Id d"
  by (simp add: resourceAwsSecurityHubOrganizationConfigurationRead_def split: sum.splits)

lemma securityhub_update_Id:
  "Id (fst (resourceAwsSecurityHubOrganizationConfigurationUpdate meta conn d))
     = (if UpdateOrganizationConfiguration conn (GetBool d ''auto_enable'') = None
        then AccountID meta else Id d)"
  using securityhub_read_Id[of conn "SetId d (AccountID meta)"]
  by (auto simp: resourceAwsSecurityHubOrganizationConfigurationUpdate_def split: option.splits)

lemma ses_read_Id:
  "Id (fst (resourceAwsSesActiveReceiptRuleSetRead meta conn d)) = Id d
   \<or> Id (fst (resourceAwsSesActiveReceiptRuleSetRead meta conn d)) = []"
  by (simp add: resourceAwsSesActiveReceiptRuleSetRead_def Let_def split: sum.splits option.splits)

lemma ses_update_Id:
  "Id (fst (resourceAwsSesActiveReceiptRuleSetUpdate meta conn d)) = Id d
   \<or> Id (fst (resourceAwsSesActiveReceiptRuleSetUpdate meta conn d)) = []
   \<or> Id (fst (resourceAwsSesActiveReceiptRuleSetUpdate meta conn d))
       = GetString d ''rule_set_name''"
  using ses_read_Id[of meta conn "SetId d (GetString d ''rule_set_name'')"]
  by (auto simp: resourceAwsSesActiveReceiptRuleSetUpdate_def Let_def split: option.splits)

lemma ses_update_Id_live:
  "SetActiveReceiptRuleSet conn (Some (GetString d ''rule_set_name'')) = None
     \<and> DescribeActiveReceiptRuleSet conn = Inr (Some md)
   \<longrightarrow> Id (fst (resourceAwsSesActiveReceiptRuleSetUpdate meta conn d))
         = GetString d ''rule_set_name''"
  by (simp add: resourceAwsSesActiveReceiptRuleSetUpdate_def Let_def
      resourceAwsSesActiveReceiptRuleSetRead_def)

lemma dax_read_Id:
  "Id (fst (resourceAwsDaxParameterGroupRead conn d)) = Id d
   \<or> Id (fst (resourceAwsDaxParameterGroupRead conn d)) = []"
  by (simp add: resourceAwsDaxParameterGroupRead_def Let_def split: sum.splits list.splits)

lemma dax_update_Id:
  "Id (fst (resourceAwsDaxParameterGroupUpdate conn d)) = Id d
   \<or> Id (fst (resourceAwsDaxParameterGroupUpdate conn d)) = []"
  using dax_read_Id[of conn d]
  by (auto simp: resourceAwsDaxParameterGroupUpdate_def split: option.splits)

lemma tgw_update_Id:
  "Id (fst (resourceAwsEc2TransitGatewayPeeringAttachmentUpdate conn d)) = Id d"
  by (auto simp: resourceAwsEc2TransitGatewayPeeringAttachmentUpdate_def
      split: option.splits if_splits)

lemma carrier_read_Id:
  "Id (fst (resourceAwsEc2CarrierGatewayRead meta conn d)) = Id d
   \<or> Id (fst (resourceAwsEc2CarrierGatewayRead meta conn d)) = []"
  by (simp add: resourceAwsEc2CarrierGatewayRead_def Let_def split: prod.splits option.splits)

lemma carrier_update_Id:
  "Id (fst (resourceAwsEc2CarrierGatewayUpdate meta conn d)) = Id d
   \<or> Id (fst (resourceAwsEc2CarrierGatewayUpdate meta conn d)) = []"
  using carrier_read_Id[of meta conn d]
  by (auto simp: resourceAwsEc2CarrierGatewayUpdate_def split: option.splits if_splits)

lemma gamelift_read_Id:
  "Id (fst (resourceAwsGameliftAliasRead meta conn d)) = Id d
   \<or> Id (fst (resourceAwsGameliftAliasRead meta conn d)) = []"
  by (simp add: resourceAwsGameliftAliasRead_def Let_def split: sum.splits)

lemma gamelift_update_Id:
  "Id (fst (resourceAwsGameliftAliasUpdate meta conn d)) = Id d
   \<or> Id (fst (resourceAwsGameliftAliasUpdate meta conn d)) = []"
  using gamelift_read_Id[of meta conn d]
  by (auto simp: resourceAwsGameliftAliasUpdate_def Let_def split: option.splits if_splits)

lemma sc_read_Id:
  "Id (fst (resourceAwsServiceCatalogConstraintRead conn d)) = Id d
   \<or> Id (fst (resourceAwsServiceCatalogConstraintRead conn d)) = []"
proof -
  obtain out err where w:
    "waitConstraintReady conn (GetString d ''accept_language'') (Id d) = (out, err)"
    by (cases "waitConstraintReady conn (GetString d ''accept_language'') (Id d)")
  show ?thesis
  proof (cases "\<not> IsNewResource d \<and> NotFound err")
    case True
    then show ?thesis using w by (simp add: resourceAwsServiceCatalogConstraintRead_def)
  next
    case False
    then have c: "(\<not> IsNewResource d \<and> NotFound err) = False" by simp
    have "Id (fst (resourceAwsServiceCatalogConstraintRead conn d)) = Id d"
      by (simp add: resourceAwsServiceCatalogConstraintRead_def w c Let_def
          split: option.splits)
    then show ?thesis ..
  qed
qed

lemma sc_update_Id:
  "Id (fst (resourceAwsServiceCatalogConstraintUpdate n conn d)) = Id d
   \<or> Id (fst (resourceAwsServiceCatalogConstraintUpdate n conn d)) = []"
  using sc_read_Id[of conn d]
  by (auto simp: resourceAwsServiceCatalogConstraintUpdate_def Let_def
      split: prod.splits option.splits if_splits)

text \<open>
  Claim C5 fails on the SES active receipt rule set. Create (the same function as
  Update) on a configuration with the rule set name \<open>rules-1\<close> assigns the identifier
  \<open>rules-1\<close>; Update on that resource, after the rule set name of the configuration has
  been changed to \<open>rules-2\<close>, sets the identifier to \<open>rules-2\<close>.
\<close>

theorem ses_update_changes_identifier:
  "Id (fst (resourceAwsSesActiveReceiptRuleSetUpdate example_meta (ses_conn_active ''rules-1'')
              (example_data [] True [(''rule_set_name'', VStr ''rules-1'')]))) = ''rules-1''
 \<and> Id (fst (resourceAwsSesActiveReceiptRuleSetUpdate example_meta (ses_conn_active ''rules-2'')
              (example_data ''rules-1'' False [(''rule_set_name'', VStr ''rules-2'')])))
     = ''rules-2''"
  by (simp add: resourceAwsSesActiveReceiptRuleSetUpdate_def
      resourceAwsSesActiveReceiptRuleSetRead_def ses_conn_active_def example_data_def
      GetString_def Let_def)

text \<open>
  Claim C5, as amended. The Update of the DAX parameter group, of the carrier gateway, of
  the GameLift alias and of the Service Catalog constraint leaves the identifier as it is
  or clears it; the Update of the transit gateway peering attachment leaves it as it is.
  The Update of the Security Hub organization configuration, when its request succeeds,
  sets the identifier to the account id of the client, so that an Update after a Create of
  the same client keeps the identifier; when the request fails the identifier stays.
  The Update of the SES active receipt rule set, when its request succeeds and an active
  rule set is found, sets the identifier to the rule set name of the configuration; in
  every case the identifier is the old one, empty, or that name.
\<close>

theorem update_identifier:
  "Id (fst (resourceAwsSecurityHubOrganizationConfigurationUpdate meta shc d1))
     = (if UpdateOrganizationConfiguration shc (GetBool d1 ''auto_enable'') = None
        then AccountID meta else Id d1)
 \<and> (UpdateOrganizationConfiguration shc0 (GetBool d0 ''auto_enable'') = None
      \<and> Id d1' = Id (fst (resourceAwsSecurityHubOrganizationConfigurationUpdate meta shc0 d0))
    \<longrightarrow> Id (fst (resourceAwsSecurityHubOrganizationConfigurationUpdate meta shc d1')) = Id d1')
 \<and> (SetActiveReceiptRuleSet ses (Some (GetString d2 ''rule_set_name'')) = None
      \<and> DescribeActiveReceiptRuleSet ses = Inr (Some md)
    \<longrightarrow> Id (fst (resourceAwsSesActiveReceiptRuleSetUpdate meta ses d2))
          = GetString d2 ''rule_set_name'')
 \<and> (Id (fst (resourceAwsSesActiveReceiptRuleSetUpdate meta ses d2)) = Id d2
      \<or> Id (fst (resourceAwsSesActiveReceiptRuleSetUpdate meta ses d2)) = []
      \<or> Id (fst (resourceAwsSesActiveReceiptRuleSetUpdate meta ses d2))
          = GetString d2 ''rule_set_name'')
 \<and> (Id (fst (resourceAwsDaxParameterGroupUpdate dax d3)) = Id d3
      \<or> Id (fst (resourceAwsDaxParameterGroupUpdate dax d3)) = [])
 \<and> Id (fst (resourceAwsEc2TransitGatewayPeeringAttachmentUpdate ec2 d4)) = Id d4
 \<and> (Id (fst (resourceAwsEc2CarrierGatewayUpdate meta ec2 d5)) = Id d5
      \<or> Id (fst (resourceAwsEc2CarrierGatewayUpdate meta ec2 d5)) = [])
 \<and> (Id (fst (resourceAwsGameliftAliasUpdate meta gl d6)) = Id d6
      \<or> Id (fst (resourceAwsGameliftAliasUpdate meta gl d6)) = [])
 \<and> (Id (fst (resourceAwsServiceCatalogConstraintUpdate n sc d7)) = Id d7
      \<or> Id (fst (resourceAwsServiceCatalogConstraintUpdate n sc d7)) = [])"
proof -
  have a: "UpdateOrganizationConfiguration shc0 (GetBool d0 ''auto_enable'') = None
      \<and> Id d1' = Id (fst (resourceAwsSecurityHubOrganizationConfigurationUpdate meta shc0 d0))
    \<longrightarrow> Id (fst (resourceAwsSecurityHubOrganizationConfigurationUpdate meta shc d1')) = Id d1'"
    by (simp add: securityhub_update_Id)
  show ?thesis
    using a securityhub_update_Id[of meta shc d1] ses_update_Id_live[of ses d2 md meta]
      ses_update_Id[of meta ses d2] dax_update_Id[of dax d3] tgw_update_Id[of ec2 d4]
      carrier_update_Id[of meta ec2 d5] gamelift_update_Id[of meta gl d6]
      sc_update_Id[of n sc d7]
    by blast
qed

theorem update_identifier_witness:
  "Id (fst (resourceAwsSecurityHubOrganizationConfigurationUpdate example_meta
              securityhub_conn_ok
              (example_data ''123456789012'' False [(''auto_enable'', VBool False)])))
     = Id (example_data ''123456789012'' False [(''auto_enable'', VBool False)])
 \<and> Id (fst (resourceAwsSesActiveReceiptRuleSetUpdate example_meta (ses_conn_active ''rules-2'')
              (example_data ''rules-1'' False [(''rule_set_name'', VStr ''rules-2'')])))
     = GetString (example_data ''rules-1'' False [(''rule_set_name'', VStr ''rules-2'')])
         ''rule_set_name''"
proof -
  have h1: "UpdateOrganizationConfiguration securityhub_conn_ok
              (GetBool (example_data [] True [(''auto_enable'', VBool True)]) ''auto_enable'')
            = None
      \<and> Id (example_data ''123456789012'' False [(''auto_enable'', VBool False)])
          = Id (fst (resourceAwsSecurityHubOrganizationConfigurationUpdate example_meta
                       securityhub_conn_ok
                       (example_data [] True [(''auto_enable'', VBool True)])))"
    by (simp add: securityhub_conn_ok_def example_data_def example_meta_def
        resourceAwsSecurityHubOrganizationConfigurationUpdate_def
        resourceAwsSecurityHubOrganizationConfigurationRead_def)
  have h2: "SetActiveReceiptRuleSet (ses_conn_active ''rules-2'')
              (Some (GetString (example_data ''rules-1'' False
                                  [(''rule_set_name'', VStr ''rules-2'')]) ''rule_set_name''))
            = None
      \<and> DescribeActiveReceiptRuleSet (ses_conn_active ''rules-2'')
          = Inr (Some \<lparr>Name = Some ''rules-2''\<rparr>)"
    by (simp add: ses_conn_active_def)
  show ?thesis
    using h1 h2
      update_identifier
        [where meta = example_meta and shc = securityhub_conn_ok
           and ?shc0.0 = securityhub_conn_ok
           and ?d0.0 = "example_data [] True [(''auto_enable'', VBool True)]"
           and ?d1' = "example_data ''123456789012'' False [(''auto_enable'', VBool False)]"
           and ?d1.0 = "example_data ''123456789012'' False [(''auto_enable'', VBool False)]"
           and ses = "ses_conn_active ''rules-2''"
           and ?d2.0 = "example_data ''rules-1'' False [(''rule_set_name'', VStr ''rules-2'')]"
           and md = "\<lparr>Name = Some ''rules-2''\<rparr>"
           and dax = dax_conn_gone and ?d3.0 = "example_data ''group-1'' False []"
           and ?ec2.0 = ec2_conn_gone and ?d4.0 = "example_data ''tgw-attach-1'' False []"
           and ?d5.0 = "example_data ''cagw-1'' False []"
           and gl = gamelift_conn_gone and ?d6.0 = "example_data ''alias-1'' False []"
           and n = 2 and sc = sc_conn_gone and ?d7.0 = "example_data ''cons-1'' False []"]
    by blast
qed

subsection \<open>Reading twice\<close>

lemma securityhub_read_twice:
  "resourceAwsSecurityHubOrganizationConfigurationRead conn d = (d1, e1) \<Longrightarrow>
   resourceAwsSecurityHubOrganizationConfigurationRead conn d1 = (d1, e1)"
  by (auto simp: resourceAwsSecurityHubOrganizationConfigurationRead_def SetBoolPtr_def SetAttr_def
      split: sum.splits)

lemma dax_read_twice:
  "resourceAwsDaxParameterGroupRead conn d = (d1, e1) \<Longrightarrow>
   DescribeParameterGroups conn [Id d1] = DescribeParameterGroups conn [Id d] \<Longrightarrow>
   DescribeParameters conn (Id d1) = DescribeParameters conn (Id d) \<Longrightarrow>
   resourceAwsDaxParameterGroupRead conn d1 = (d1, e1)"
  by (auto simp: resourceAwsDaxParameterGroupRead_def SetStringPtr_def SetAttr_def SetId_def Let_def
      split: sum.splits list.splits if_splits)

lemma ses_read_twice:
  "resourceAwsSesActiveReceiptRuleSetRead meta conn d = (d1, e1) \<Longrightarrow>
   resourceAwsSesActiveReceiptRuleSetRead meta conn d1 = (d1, e1)"
  by (auto simp: resourceAwsSesActiveReceiptRuleSetRead_def SetStringPtr_def SetAttr_def SetId_def
      Let_def split: sum.splits option.splits if_splits)

lemma tgw_read_twice:
  "resourceAwsEc2TransitGatewayPeeringAttachmentRead meta conn d = (d1, e1) \<Longrightarrow>
   ec2DescribeTransitGatewayPeeringAttachment conn (Id d1)
     = ec2DescribeTransitGatewayPeeringAttachment conn (Id d) \<Longrightarrow>
   resourceAwsEc2TransitGatewayPeeringAttachmentRead meta conn d1 = (d1, e1)"
  by (auto simp: resourceAwsEc2TransitGatewayPeeringAttachmentRead_def SetStringPtr_def SetAttr_def
      SetId_def Let_def split: prod.splits option.splits if_splits)

lemma carrier_read_twice:
  "resourceAwsEc2CarrierGatewayRead meta conn d = (d1, e1) \<Longrightarrow>
   findCarrierGatewayByID conn (Id d1) = findCarrierGatewayByID conn (Id d) \<Longrightarrow>
   resourceAwsEc2CarrierGatewayRead meta conn d1 = (d1, e1)"
  by (auto simp: resourceAwsEc2CarrierGatewayRead_def SetStringPtr_def SetAttr_def
      SetId_def Let_def split: prod.splits option.splits if_splits)

lemma gamelift_read_twice:
  "resourceAwsGameliftAliasRead meta conn d = (d1, e1) \<Longrightarrow>
   DescribeAlias conn (Id d1) = DescribeAlias conn (Id d) \<Longrightarrow>
   resourceAwsGameliftAliasRead meta conn d1 = (d1, e1)"
  by (auto simp: resourceAwsGameliftAliasRead_def SetStringPtr_def SetAttr_def
      SetId_def Let_def split: sum.splits option.splits if_splits)

lemma sc_read_twice:
  assumes r: "resourceAwsServiceCatalogConstraintRead conn d = (d1, e1)"
    and same: "waitConstraintReady conn (GetString d1 ''accept_language'') (Id d1)
                 = waitConstraintReady conn (GetString d ''accept_language'') (Id d)"
  shows "resourceAwsServiceCatalogConstraintRead conn d1 = (d1, e1)"
proof -
  obtain out err where w:
    "waitConstraintReady conn (GetString d ''accept_language'') (Id d) = (out, err)"
    by (cases "waitConstraintReady conn (GetString d ''accept_language'') (Id d)")
  have w1: "waitConstraintReady conn (GetString d1 ''accept_language'') (Id d1) = (out, err)"
    using same w by simp
  show ?thesis
  proof (cases "\<not> IsNewResource d \<and> NotFound err")
    case True
    then have d1: "d1 = SetId d []" and e1: "e1 = None"
      using r w by (simp_all add: resourceAwsServiceCatalogConstraintRead_def)
    show ?thesis using w1 True unfolding d1 e1
      by (simp add: resourceAwsServiceCatalogConstraintRead_def)
  next
    case False
    then have c: "(\<not> IsNewResource d \<and> NotFound err) = False" by simp
    show ?thesis
    proof (cases "err = None \<and> out \<noteq> None \<and> describe_ConstraintDetail (the out) \<noteq> None")
      case False
      then have "d1 = d" using r w c
        by (auto simp: resourceAwsServiceCatalogConstraintRead_def split: option.splits)
      then show ?thesis using r by simp
    next
      case True
      then obtain o1 detail where o: "err = None" "out = Some o1"
        "describe_ConstraintDetail o1 = Some detail" by auto
      have new: "IsNewResource d1 = IsNewResource d"
        using r w c o by (auto simp: resourceAwsServiceCatalogConstraintRead_def Let_def)
      have e1: "e1 = None"
        using r w c o by (auto simp: resourceAwsServiceCatalogConstraintRead_def Let_def)
      have al: "GetString d1 ''accept_language'' \<noteq> []"
        using r w c o
        by (auto simp: resourceAwsServiceCatalogConstraintRead_def Let_def
            acceptLanguageEnglish_def split: if_splits)
      have d1: "d1 = d1\<lparr>attrs := (attrs d1)
                 (''accept_language'' := VStr (GetString d1 ''accept_language''),
                  ''parameters'' := VStr (StringValue (describe_ConstraintParameters o1)),
                  ''status'' := VStr (StringValue (describe_Status o1)),
                  ''description'' := VStr (StringValue (cd_Description detail)),
                  ''owner'' := VStr (StringValue (cd_Owner detail)),
                  ''portfolio_id'' := VStr (StringValue (cd_PortfolioId detail)),
                  ''product_id'' := VStr (StringValue (cd_ProductId detail)),
                  ''type'' := VStr (StringValue (cd_Type detail)))\<rparr>"
        using r w c o
        by (auto simp: resourceAwsServiceCatalogConstraintRead_def Let_def SetStringPtr_def
            SetAttr_def GetString_def fun_eq_iff)
      have "resourceAwsServiceCatalogConstraintRead conn d1 =
             (d1\<lparr>attrs := (attrs d1)
                 (''accept_language'' := VStr (GetString d1 ''accept_language''),
                  ''parameters'' := VStr (StringValue (describe_ConstraintParameters o1)),
                  ''status'' := VStr (StringValue (describe_Status o1)),
                  ''description'' := VStr (StringValue (cd_Description detail)),
                  ''owner'' := VStr (StringValue (cd_Owner detail)),
                  ''portfolio_id'' := VStr (StringValue (cd_PortfolioId detail)),
                  ''product_id'' := VStr (StringValue (cd_ProductId detail)),
                  ''type'' := VStr (StringValue (cd_Type detail)))\<rparr>, None)"
        using w1 o new al
        by (simp add: resourceAwsServiceCatalogConstraintRead_def Let_def SetStringPtr_def
            SetAttr_def NotFound_def)
      then show ?thesis using d1 e1 by simp
    qed
  qed
qed

text \<open>
  Claim C7. For each resource, reading again from the data the first Read returned, with
  the API giving the second Read the answers it gave the first, returns the same data and
  the same error. Where the requests of Read carry the identifier (or, for the Service
  Catalog constraint, the accept language), the same answers are a hypothesis, since the
  first Read may have cleared the identifier.
\<close>

theorem read_twice_same_output:
  "resourceAwsSecurityHubOrganizationConfigurationRead shc
       (fst (resourceAwsSecurityHubOrganizationConfigurationRead shc d1))
     = resourceAwsSecurityHubOrganizationConfigurationRead shc d1
 \<and> resourceAwsSesActiveReceiptRuleSetRead meta ses
       (fst (resourceAwsSesActiveReceiptRuleSetRead meta ses d2))
     = resourceAwsSesActiveReceiptRuleSetRead meta ses d2
 \<and> (DescribeParameterGroups dax [Id (fst (resourceAwsDaxParameterGroupRead dax d3))]
        = DescribeParameterGroups dax [Id d3]
      \<and> DescribeParameters dax (Id (fst (resourceAwsDaxParameterGroupRead dax d3)))
        = DescribeParameters dax (Id d3)
    \<longrightarrow> resourceAwsDaxParameterGroupRead dax (fst (resourceAwsDaxParameterGroupRead dax d3))
          = resourceAwsDaxParameterGroupRead dax d3)
 \<and> (ec2DescribeTransitGatewayPeeringAttachment ec2
        (Id (fst (resourceAwsEc2TransitGatewayPeeringAttachmentRead meta ec2 d4)))
        = ec2DescribeTransitGatewayPeeringAttachment ec2 (Id d4)
    \<longrightarrow> resourceAwsEc2TransitGatewayPeeringAttachmentRead meta ec2
            (fst (resourceAwsEc2TransitGatewayPeeringAttachmentRead meta ec2 d4))
          = resourceAwsEc2TransitGatewayPeeringAttachmentRead meta ec2 d4)
 \<and> (findCarrierGatewayByID ec2 (Id (fst (resourceAwsEc2CarrierGatewayRead meta ec2 d5)))
        = findCarrierGatewayByID ec2 (Id d5)
    \<longrightarrow> resourceAwsEc2CarrierGatewayRead meta ec2
            (fst (resourceAwsEc2CarrierGatewayRead meta ec2 d5))
          = resourceAwsEc2CarrierGatewayRead meta ec2 d5)
 \<and> (DescribeAlias gl (Id (fst (resourceAwsGameliftAliasRead meta gl d6)))
        = DescribeAlias gl (Id d6)
    \<longrightarrow> resourceAwsGameliftAliasRead meta gl (fst (resourceAwsGameliftAliasRead meta gl d6))
          = resourceAwsGameliftAliasRead meta gl d6)
 \<and> (waitConstraintReady sc
        (GetString (fst (resourceAwsServiceCatalogConstraintRead sc d7)) ''accept_language'')
        (Id (fst (resourceAwsServiceCatalogConstraintRead sc d7)))
        = waitConstraintReady sc (GetString d7 ''accept_language'') (Id d7)
    \<longrightarrow> resourceAwsServiceCatalogConstraintRead sc
            (fst (resourceAwsServiceCatalogConstraintRead sc d7))
          = resourceAwsServiceCatalogConstraintRead sc d7)"
proof -
  have sh: "resourceAwsSecurityHubOrganizationConfigurationRead shc
       (fst (resourceAwsSecurityHubOrganizationConfigurationRead shc d1))
     = resourceAwsSecurityHubOrganizationConfigurationRead shc d1"
    using securityhub_read_twice[of shc d1] by (metis prod.collapse)
  have se: "resourceAwsSesActiveReceiptRuleSetRead meta ses
       (fst (resourceAwsSesActiveReceiptRuleSetRead meta ses d2))
     = resourceAwsSesActiveReceiptRuleSetRead meta ses d2"
    using ses_read_twice[of meta ses d2] by (metis prod.collapse)
  show ?thesis
    using sh se dax_read_twice[of dax d3] tgw_read_twice[of meta ec2 d4]
      carrier_read_twice[of meta ec2 d5] gamelift_read_twice[of meta gl d6]
      sc_read_twice[of sc d7]
    by (metis prod.collapse)
qed

theorem read_twice_same_output_witness:
  "resourceAwsDaxParameterGroupRead dax_conn_group
       (fst (resourceAwsDaxParameterGroupRead dax_conn_group (example_data ''group-1'' False [])))
     = resourceAwsDaxParameterGroupRead dax_conn_group (example_data ''group-1'' False [])
 \<and> resourceAwsEc2TransitGatewayPeeringAttachmentRead example_meta ec2_conn_gone
       (fst (resourceAwsEc2TransitGatewayPeeringAttachmentRead example_meta ec2_conn_gone
               (example_data ''tgw-attach-1'' False [])))
     = resourceAwsEc2TransitGatewayPeeringAttachmentRead example_meta ec2_conn_gone
         (example_data ''tgw-attach-1'' False [])
 \<and> resourceAwsEc2CarrierGatewayRead example_meta ec2_conn_gone
       (fst (resourceAwsEc2CarrierGatewayRead example_meta ec2_conn_gone
               (example_data ''cagw-1'' False [])))
     = resourceAwsEc2CarrierGatewayRead example_meta ec2_conn_gone
         (example_data ''cagw-1'' False [])
 \<and> resourceAwsGameliftAliasRead example_meta gamelift_conn_gone
       (fst (resourceAwsGameliftAliasRead example_meta gamelift_conn_gone
               (example_data ''alias-1'' False [])))
     = resourceAwsGameliftAliasRead example_meta gamelift_conn_gone
         (example_data ''alias-1'' False [])
 \<and> resourceAwsServiceCatalogConstraintRead sc_conn_gone
       (fst (resourceAwsServiceCatalogConstraintRead sc_conn_gone
               (example_data ''cons-1'' False [])))
     = resourceAwsServiceCatalogConstraintRead sc_conn_gone (example_data ''cons-1'' False [])"
proof -
  have h3: "DescribeParameterGroups dax_conn_group
              [Id (fst (resourceAwsDaxParameterGroupRead dax_conn_group
                          (example_data ''group-1'' False [])))]
            = DescribeParameterGroups dax_conn_group [Id (example_data ''group-1'' False [])]
      \<and> DescribeParameters dax_conn_group
              (Id (fst (resourceAwsDaxParameterGroupRead dax_conn_group
                          (example_data ''group-1'' False []))))
            = DescribeParameters dax_conn_group (Id (example_data ''group-1'' False []))"
    by (simp add: dax_conn_group_def)
  have h4: "ec2DescribeTransitGatewayPeeringAttachment ec2_conn_gone
        (Id (fst (resourceAwsEc2TransitGatewayPeeringAttachmentRead example_meta ec2_conn_gone
                    (example_data ''tgw-attach-1'' False []))))
        = ec2DescribeTransitGatewayPeeringAttachment ec2_conn_gone
            (Id (example_data ''tgw-attach-1'' False []))"
    by (simp add: ec2_conn_gone_def)
  have h5: "findCarrierGatewayByID ec2_conn_gone
        (Id (fst (resourceAwsEc2CarrierGatewayRead example_meta ec2_conn_gone
                    (example_data ''cagw-1'' False []))))
        = findCarrierGatewayByID ec2_conn_gone (Id (example_data ''cagw-1'' False []))"
    by (simp add: ec2_conn_gone_def)
  have h6: "DescribeAlias gamelift_conn_gone
        (Id (fst (resourceAwsGameliftAliasRead example_meta gamelift_conn_gone
                    (example_data ''alias-1'' False []))))
        = DescribeAlias gamelift_conn_gone (Id (example_data ''alias-1'' False []))"
    by (simp add: gamelift_conn_gone_def)
  have h7: "waitConstraintReady sc_conn_gone
        (GetString (fst (resourceAwsServiceCatalogConstraintRead sc_conn_gone
                           (example_data ''cons-1'' False []))) ''accept_language'')
        (Id (fst (resourceAwsServiceCatalogConstraintRead sc_conn_gone
                    (example_data ''cons-1'' False []))))
        = waitConstraintReady sc_conn_gone
            (GetString (example_data ''cons-1'' False []) ''accept_language'')
            (Id (example_data ''cons-1'' False []))"
    by (simp add: sc_conn_gone_def)
  show ?thesis
    using h3 h4 h5 h6 h7
      read_twice_same_output
        [where shc = securityhub_conn_ok and ?d1.0 = "example_data ''123456789012'' False []"
           and meta = example_meta and ses = ses_conn_gone
           and ?d2.0 = "example_data ''rules-1'' False []"
           and dax = dax_conn_group and ?d3.0 = "example_data ''group-1'' False []"
           and ?ec2.0 = ec2_conn_gone and ?d4.0 = "example_data ''tgw-attach-1'' False []"
           and ?d5.0 = "example_data ''cagw-1'' False []"
           and gl = gamelift_conn_gone and ?d6.0 = "example_data ''alias-1'' False []"
           and sc = sc_conn_gone and ?d7.0 = "example_data ''cons-1'' False []"]
    by blast
qed

subsection \<open>Retries of the Service Catalog constraint\<close>

lemma Retry_loop_stops:
  "\<forall>i<k. retries_again (f (s + i)) \<Longrightarrow> k < n \<Longrightarrow> f (s + k) = (r, out) \<Longrightarrow>
   \<not> retries_again (r, out) \<Longrightarrow>
   Retry_loop n f s out0 re = (map_option Err r, out, Suc (s + k))"
proof (induction k arbitrary: n s out0 re)
  case 0
  then obtain m where "n = Suc m" by (cases n) auto
  then show ?case using 0 by (auto simp: retries_again_def split: option.splits)
next
  case (Suc k)
  then obtain m where m: "n = Suc m" by (cases n) auto
  from Suc.prems(1) have r0: "retries_again (f s)" by (metis add.right_neutral zero_less_Suc)
  have rest: "\<forall>i<k. retries_again (f (Suc s + i))"
    using Suc.prems(1) by (metis Suc_less_eq add_Suc_shift)
  have fk: "f (Suc s + k) = (r, out)" using Suc.prems(3) by simp
  have km: "k < m" using Suc.prems(2) m by simp
  obtain rerr out' where f0: "f s = (Some rerr, out')" "Retryable rerr"
    using r0 by (cases "f s") (auto simp: retries_again_def split: option.splits)
  show ?case using Suc.IH[OF rest km fk Suc.prems(4), of out' "Some (Err rerr)"] f0 m by simp
qed

lemma Retry_loop_exhausted:
  "\<forall>i<n. retries_again (f (s + i)) \<Longrightarrow> 0 < n \<Longrightarrow> f (s + (n - 1)) = (Some rerr, out) \<Longrightarrow>
   Retry_loop n f s out0 re = (Some (Err rerr), out, s + n)"
proof (induction n arbitrary: s out0 re)
  case 0
  then show ?case by simp
next
  case (Suc n)
  from Suc.prems(1) have r0: "retries_again (f s)" by (metis add.right_neutral zero_less_Suc)
  then obtain r0 out' where f0: "f s = (Some r0, out')" "Retryable r0"
    by (cases "f s") (auto simp: retries_again_def split: option.splits)
  show ?case
  proof (cases n)
    case 0
    then show ?thesis using f0 Suc.prems(3) by simp
  next
    case (Suc m)
    have rest: "\<forall>i<n. retries_again (f (Suc s + i))"
      using Suc.prems(1) by (metis Suc_less_eq add_Suc_shift)
    have pos: "0 < n" using Suc by simp
    have fl: "f (Suc s + (n - 1)) = (Some rerr, out)" using Suc.prems(3) Suc by simp
    show ?thesis using Suc.IH[OF rest pos fl, of out' "Some (Err r0)"] f0 by simp
  qed
qed

lemma Retry_loop_calls_le: "snd (snd (Retry_loop n f s out0 re)) \<le> s + n"
proof (induction n arbitrary: s out0 re)
  case 0
  then show ?case by (cases re) simp_all
next
  case (Suc n)
  obtain r out' where fs: "f s = (r, out')" by (cases "f s")
  show ?case
  proof (cases r)
    case None
    then show ?thesis using fs by simp
  next
    case (Some rerr)
    then show ?thesis using fs Suc.IH[of "Suc s" out' "Some (Err rerr)"] by simp
  qed
qed

text \<open>
  Once a call of the retried function has been answered within the window, the error of
  the helper is the error of one of the calls.
\<close>

lemma Retry_loop_error:
  "fst (Retry_loop n f s out0 re) = Some e \<Longrightarrow> 0 < n \<or> re \<noteq> None \<Longrightarrow>
   (\<exists>i<n. \<exists>rerr out'. f (s + i) = (Some rerr, out') \<and> Err rerr = e) \<or> (n = 0 \<and> re = Some e)"
proof (induction n arbitrary: s out0 re)
  case 0
  then show ?case by (cases re) simp_all
next
  case (Suc n)
  obtain r out' where fs: "f s = (r, out')" by (cases "f s")
  show ?case
  proof (cases r)
    case None
    then show ?thesis using fs Suc.prems(1) by simp
  next
    case (Some rerr)
    show ?thesis
    proof (cases "Retryable rerr")
      case False
      then have "Err rerr = e" using fs Some Suc.prems(1) by simp
      then have "f (s + 0) = (Some rerr, out') \<and> Err rerr = e" using fs Some by simp
      then show ?thesis by blast
    next
      case True
      then have "fst (Retry_loop n f (Suc s) out' (Some (Err rerr))) = Some e"
        using fs Some Suc.prems(1) by simp
      from Suc.IH[OF this] have
        "(\<exists>i<n. \<exists>rerr' out''. f (Suc s + i) = (Some rerr', out'') \<and> Err rerr' = e)
         \<or> (n = 0 \<and> Some (Err rerr) = Some e)"
        by simp
      then show ?thesis
      proof
        assume "\<exists>i<n. \<exists>rerr' out''. f (Suc s + i) = (Some rerr', out'') \<and> Err rerr' = e"
        then obtain i rerr' out'' where "i < n" "f (s + Suc i) = (Some rerr', out'')" "Err rerr' = e"
          by auto
        then have "Suc i < Suc n \<and> f (s + Suc i) = (Some rerr', out'') \<and> Err rerr' = e" by simp
        then show ?thesis by blast
      next
        assume "n = 0 \<and> Some (Err rerr) = Some e"
        then have "f (s + 0) = (Some rerr, out') \<and> Err rerr = e" using fs Some by simp
        then show ?thesis by blast
      qed
    qed
  qed
qed

lemma create_attempt_retries:
  "retries_again (createConstraint_attempt conn input k)
     = create_retryable (snd (CreateConstraint conn k input))"
  by (cases "CreateConstraint conn k input"; cases "snd (CreateConstraint conn k input)")
     (auto simp: createConstraint_attempt_def retries_again_def create_retryable_def
        RetryableError_def NonRetryableError_def ErrMessageContains_def ErrCodeEquals_def)

lemma update_attempt_retries:
  "retries_again (updateConstraint_attempt conn input k)
     = update_retryable (UpdateConstraint conn k input)"
  by (cases "UpdateConstraint conn k input")
     (auto simp: updateConstraint_attempt_def retries_again_def update_retryable_def
        RetryableError_def NonRetryableError_def ErrMessageContains_def Let_def)

lemma create_attempt_result:
  "CreateConstraint conn k input = (out, err) \<Longrightarrow> \<not> create_retryable err \<Longrightarrow>
   createConstraint_attempt conn input k = (map_option (\<lambda>e. \<lparr>Err = e, Retryable = False\<rparr>) err, out)"
  by (cases err)
     (auto simp: createConstraint_attempt_def create_retryable_def NonRetryableError_def)

lemma update_attempt_result:
  "\<not> update_retryable (UpdateConstraint conn k input) \<Longrightarrow>
   updateConstraint_attempt conn input k
     = (map_option (\<lambda>e. \<lparr>Err = e, Retryable = False\<rparr>) (UpdateConstraint conn k input), ())"
  by (cases "UpdateConstraint conn k input")
     (auto simp: updateConstraint_attempt_def update_retryable_def NonRetryableError_def Let_def)

lemma create_attempt_error:
  "createConstraint_attempt conn input k = (Some rerr, out) \<Longrightarrow>
   CreateConstraint conn k input = (out, Some (Err rerr))"
  by (cases "CreateConstraint conn k input"; cases "snd (CreateConstraint conn k input)")
     (auto simp: createConstraint_attempt_def RetryableError_def NonRetryableError_def
        ErrMessageContains_def ErrCodeEquals_def split: if_splits)

lemma update_attempt_error:
  "updateConstraint_attempt conn input k = (Some rerr, u) \<Longrightarrow>
   UpdateConstraint conn k input = Some (Err rerr)"
  by (cases "UpdateConstraint conn k input")
     (auto simp: updateConstraint_attempt_def RetryableError_def NonRetryableError_def
        ErrMessageContains_def Let_def split: if_splits)

lemma not_found_not_update_retryable:
  "ErrCodeEquals (Some e) ErrCodeResourceNotFoundException \<Longrightarrow> \<not> update_retryable (Some e)"
  by (auto simp: ErrCodeEquals_def update_retryable_def ErrMessageContains_def
      ErrCodeResourceNotFoundException_def ErrCodeInvalidParametersException_def
      split: option.splits)

lemma awserr_not_TimedOut: "as_awserr e = Some cm \<Longrightarrow> \<not> TimedOut (Some e)"
  by (cases "Some e" rule: TimedOut.cases) auto

lemma not_found_not_TimedOut:
  "ErrCodeEquals (Some e) code \<Longrightarrow> \<not> TimedOut (Some e)"
  by (auto simp: ErrCodeEquals_def split: option.splits dest: awserr_not_TimedOut)

lemma create_retryable_not_TimedOut: "create_retryable (Some e) \<Longrightarrow> \<not> TimedOut (Some e)"
  by (auto simp: create_retryable_def ErrCodeEquals_def ErrMessageContains_def
      split: option.splits dest: awserr_not_TimedOut)

lemma update_retryable_not_TimedOut: "update_retryable (Some e) \<Longrightarrow> \<not> TimedOut (Some e)"
  by (auto simp: update_retryable_def ErrMessageContains_def
      split: option.splits dest: awserr_not_TimedOut)

lemma create_aborts:
  assumes "\<forall>i<k. create_retryable (snd (CreateConstraint conn i (serviceCatalogCreateConstraintInput conn d)))"
    and "k < n"
    and "CreateConstraint conn k (serviceCatalogCreateConstraintInput conn d) = (out, Some e)"
    and "\<not> create_retryable (Some e)"
    and "\<not> TimedOut (Some e)"
  shows "resourceAwsServiceCatalogConstraintCreate n conn d
           = (d, Some (ErrorfW ''error creating Service Catalog Constraint: '' e), Suc k)"
proof -
  let ?input = "serviceCatalogCreateConstraintInput conn d"
  let ?f = "createConstraint_attempt conn ?input"
  have a: "\<forall>i<k. retries_again (?f (0 + i))" using assms(1) by (simp add: create_attempt_retries)
  have b: "?f (0 + k) = (Some \<lparr>Err = e, Retryable = False\<rparr>, out)"
    using create_attempt_result[OF assms(3,4)] by simp
  have c: "\<not> retries_again (Some \<lparr>Err = e, Retryable = False\<rparr>, out)"
    by (simp add: retries_again_def)
  have "Retry n ?f None = (Some e, out, Suc k)"
    using Retry_loop_stops[OF a assms(2) b c, of None None] by (simp add: Retry_def)
  then show ?thesis using assms(5)
    by (simp add: resourceAwsServiceCatalogConstraintCreate_def Let_def)
qed

lemma create_window_used_up:
  assumes "\<forall>i<n. create_retryable (snd (CreateConstraint conn i (serviceCatalogCreateConstraintInput conn d)))"
    and "0 < n"
    and "CreateConstraint conn (n - 1) (serviceCatalogCreateConstraintInput conn d) = (out, Some e)"
  shows "resourceAwsServiceCatalogConstraintCreate n conn d
           = (d, Some (ErrorfW ''error creating Service Catalog Constraint: '' e), n)"
proof -
  let ?input = "serviceCatalogCreateConstraintInput conn d"
  let ?f = "createConstraint_attempt conn ?input"
  have a: "\<forall>i<n. retries_again (?f (0 + i))" using assms(1) by (simp add: create_attempt_retries)
  have "retries_again (?f (n - 1))" using a assms(2) by simp
  then obtain rerr out' where f: "?f (n - 1) = (Some rerr, out')"
    by (cases "?f (n - 1)") (auto simp: retries_again_def split: option.splits)
  from create_attempt_error[OF this] assms(3) have eq: "out' = out" "Err rerr = e" by simp_all
  have re: "create_retryable (Some e)" using assms(1,2,3) by (metis diff_less snd_conv zero_less_one)
  have "Retry n ?f None = (Some e, out, n)"
    using Retry_loop_exhausted[OF a assms(2), of rerr out' None None] f eq by (simp add: Retry_def)
  then show ?thesis using create_retryable_not_TimedOut[OF re]
    by (simp add: resourceAwsServiceCatalogConstraintCreate_def Let_def)
qed

lemma create_no_extra_attempt:
  assumes "0 < n"
    and "\<forall>i<n. \<forall>e. snd (CreateConstraint conn i (serviceCatalogCreateConstraintInput conn d)) = Some e
                     \<longrightarrow> as_awserr e \<noteq> None"
  shows "snd (snd (resourceAwsServiceCatalogConstraintCreate n conn d)) \<le> n"
proof -
  let ?input = "serviceCatalogCreateConstraintInput conn d"
  let ?f = "createConstraint_attempt conn ?input"
  obtain err0 out0 calls0 where r: "Retry n ?f None = (err0, out0, calls0)"
    by (cases "Retry n ?f None") auto
  have le: "calls0 \<le> n" using Retry_loop_calls_le[of n ?f 0 None None] r by (simp add: Retry_def)
  have nt: "\<not> TimedOut err0"
  proof (cases err0)
    case None
    then show ?thesis by simp
  next
    case (Some e)
    then have "fst (Retry_loop n ?f 0 None None) = Some e" using r by (simp add: Retry_def)
    from Retry_loop_error[OF this] assms(1) obtain i rerr out' where
      i: "i < n" "?f (0 + i) = (Some rerr, out')" "Err rerr = e"
      by auto
    from create_attempt_error[of conn ?input i rerr out'] i
    have "snd (CreateConstraint conn i ?input) = Some e" by simp
    with assms(2) i(1) obtain cm where "as_awserr e = Some cm" by blast
    from awserr_not_TimedOut[OF this] show ?thesis using Some by simp
  qed
  show ?thesis using r le nt
    by (simp add: resourceAwsServiceCatalogConstraintCreate_def Let_def
        split: option.splits prod.splits)
qed

lemma create_unanswered_window:
  assumes "CreateConstraint conn 0 (serviceCatalogCreateConstraintInput conn d) = (out, Some e)"
  shows "resourceAwsServiceCatalogConstraintCreate 0 conn d
           = (d, Some (ErrorfW ''error creating Service Catalog Constraint: '' e), 1)"
  using assms
  by (simp add: resourceAwsServiceCatalogConstraintCreate_def Let_def Retry_def)

lemma create_bounded: "snd (snd (resourceAwsServiceCatalogConstraintCreate n conn d)) \<le> Suc n"
proof -
  let ?input = "serviceCatalogCreateConstraintInput conn d"
  let ?f = "createConstraint_attempt conn ?input"
  obtain err0 out0 calls0 where r: "Retry n ?f None = (err0, out0, calls0)"
    by (cases "Retry n ?f None") auto
  have le: "calls0 \<le> n" using Retry_loop_calls_le[of n ?f 0 None None] r by (simp add: Retry_def)
  obtain out1 err1 where c: "CreateConstraint conn calls0 ?input = (out1, err1)"
    by (cases "CreateConstraint conn calls0 ?input")
  show ?thesis using r le c
    by (cases "TimedOut err0")
       (simp_all add: resourceAwsServiceCatalogConstraintCreate_def Let_def
          split: option.splits prod.splits)
qed

lemma update_aborts:
  assumes "\<forall>i<k. update_retryable (UpdateConstraint conn i (serviceCatalogUpdateConstraintInput d))"
    and "k < n"
    and "UpdateConstraint conn k (serviceCatalogUpdateConstraintInput d) = Some e"
    and "\<not> update_retryable (Some e)"
    and "\<not> TimedOut (Some e)"
  shows "resourceAwsServiceCatalogConstraintUpdate n conn d
           = (d, Some (ErrorfW (''error updating Service Catalog Constraint ('' @ Id d @ ''): '') e),
              Suc k)"
proof -
  let ?input = "serviceCatalogUpdateConstraintInput d"
  let ?f = "updateConstraint_attempt conn ?input"
  have a: "\<forall>i<k. retries_again (?f (0 + i))" using assms(1) by (simp add: update_attempt_retries)
  have b: "?f (0 + k) = (Some \<lparr>Err = e, Retryable = False\<rparr>, ())"
    using update_attempt_result[of conn k ?input] assms(3,4) by simp
  have c: "\<not> retries_again (Some \<lparr>Err = e, Retryable = False\<rparr>, ())"
    by (simp add: retries_again_def)
  have "Retry n ?f () = (Some e, (), Suc k)"
    using Retry_loop_stops[OF a assms(2) b c, of "()" None] by (simp add: Retry_def)
  then show ?thesis using assms(5)
    by (simp add: resourceAwsServiceCatalogConstraintUpdate_def Let_def)
qed

lemma update_window_used_up:
  assumes "\<forall>i<n. update_retryable (UpdateConstraint conn i (serviceCatalogUpdateConstraintInput d))"
    and "0 < n"
    and "UpdateConstraint conn (n - 1) (serviceCatalogUpdateConstraintInput d) = Some e"
  shows "resourceAwsServiceCatalogConstraintUpdate n conn d
           = (d, Some (ErrorfW (''error updating Service Catalog Constraint ('' @ Id d @ ''): '') e),
              n)"
proof -
  let ?input = "serviceCatalogUpdateConstraintInput d"
  let ?f = "updateConstraint_attempt conn ?input"
  have a: "\<forall>i<n. retries_again (?f (0 + i))" using assms(1) by (simp add: update_attempt_retries)
  have "retries_again (?f (n - 1))" using a assms(2) by simp
  then obtain rerr where f: "?f (n - 1) = (Some rerr, ())"
    by (cases "?f (n - 1)") (auto simp: retries_again_def split: option.splits)
  from update_attempt_error[OF this] assms(3) have eq: "Err rerr = e" by simp
  have re: "update_retryable (Some e)" using assms(1,2,3) by (metis diff_less zero_less_one)
  have "Retry n ?f () = (Some e, (), n)"
    using Retry_loop_exhausted[OF a assms(2), of rerr "()" "()" None] f eq by (simp add: Retry_def)
  then show ?thesis using update_retryable_not_TimedOut[OF re]
    by (simp add: resourceAwsServiceCatalogConstraintUpdate_def Let_def)
qed

lemma update_no_extra_attempt:
  assumes "0 < n"
    and "\<forall>i<n. \<forall>e. UpdateConstraint conn i (serviceCatalogUpdateConstraintInput d) = Some e
                     \<longrightarrow> as_awserr e \<noteq> None"
  shows "snd (snd (resourceAwsServiceCatalogConstraintUpdate n conn d)) \<le> n"
proof -
  let ?input = "serviceCatalogUpdateConstraintInput d"
  let ?f = "updateConstraint_attempt conn ?input"
  obtain err0 out0 calls0 where r: "Retry n ?f () = (err0, out0, calls0)"
    by (cases "Retry n ?f ()") auto
  have le: "calls0 \<le> n" using Retry_loop_calls_le[of n ?f 0 "()" None] r by (simp add: Retry_def)
  have nt: "\<not> TimedOut err0"
  proof (cases err0)
    case None
    then show ?thesis by simp
  next
    case (Some e)
    then have "fst (Retry_loop n ?f 0 () None) = Some e" using r by (simp add: Retry_def)
    from Retry_loop_error[OF this] assms(1) obtain i rerr out' where
      i: "i < n" "?f (0 + i) = (Some rerr, out')" "Err rerr = e"
      by auto
    from update_attempt_error[of conn ?input i rerr out'] i
    have "UpdateConstraint conn i ?input = Some e" by simp
    with assms(2) i(1) obtain cm where "as_awserr e = Some cm" by blast
    from awserr_not_TimedOut[OF this] show ?thesis using Some by simp
  qed
  show ?thesis using r le nt
    by (simp add: resourceAwsServiceCatalogConstraintUpdate_def Let_def
        split: option.splits prod.splits)
qed

lemma update_unanswered_window:
  assumes "UpdateConstraint conn 0 (serviceCatalogUpdateConstraintInput d) = Some e"
  shows "resourceAwsServiceCatalogConstraintUpdate 0 conn d
           = (d, Some (ErrorfW (''error updating Service Catalog Constraint ('' @ Id d @ ''): '') e),
              1)"
  using assms
  by (simp add: resourceAwsServiceCatalogConstraintUpdate_def Let_def Retry_def)

lemma update_bounded: "snd (snd (resourceAwsServiceCatalogConstraintUpdate n conn d)) \<le> Suc n"
proof -
  let ?input = "serviceCatalogUpdateConstraintInput d"
  let ?f = "updateConstraint_attempt conn ?input"
  obtain err0 out0 calls0 where r: "Retry n ?f () = (err0, out0, calls0)"
    by (cases "Retry n ?f ()") auto
  have le: "calls0 \<le> n" using Retry_loop_calls_le[of n ?f 0 "()" None] r by (simp add: Retry_def)
  show ?thesis using r le
    by (cases "TimedOut err0")
       (simp_all add: resourceAwsServiceCatalogConstraintUpdate_def Let_def
          split: option.splits prod.splits)
qed

lemma update_not_found_aborts:
  assumes "UpdateConstraint conn 0 (serviceCatalogUpdateConstraintInput d) = Some e"
    and "ErrCodeEquals (Some e) ErrCodeResourceNotFoundException"
    and "0 < n"
  shows "resourceAwsServiceCatalogConstraintUpdate n conn d
           = (d, Some (ErrorfW (''error updating Service Catalog Constraint ('' @ Id d @ ''): '') e),
              1)"
  using update_aborts[of 0 conn d n e] assms not_found_not_update_retryable[OF assms(2)]
    not_found_not_TimedOut[OF assms(2)]
  by simp

text \<open>
  Claim C6 fails on Update. The retry window leaves room for five attempts; the service
  answers the first update request with resource-not-found and would accept the second.
  Update makes one request and returns the error.
\<close>

theorem constraint_update_not_found_not_retried:
  "resourceAwsServiceCatalogConstraintUpdate 5 sc_conn_gone (example_data ''cons-1'' False [])
     = (example_data ''cons-1'' False [],
        Some (ErrorfW ''error updating Service Catalog Constraint (cons-1): ''
                (AwsError ''ResourceNotFoundException'' ''not found'')), 1)
 \<and> UpdateConstraint sc_conn_gone 1
       (serviceCatalogUpdateConstraintInput (example_data ''cons-1'' False [])) = None"
  using update_not_found_aborts
          [of sc_conn_gone "example_data ''cons-1'' False []"
              "AwsError ''ResourceNotFoundException'' ''not found''" 5]
  by (simp add: sc_conn_gone_def ErrCodeEquals_def ErrCodeResourceNotFoundException_def
      example_data_def)

text \<open>
  Claim C6, as amended. Create retries the invalid-parameters error ``profile does not
  exist'' and the resource-not-found error; Update retries only the former, and a
  resource-not-found error aborts it at once. For both: an answer with any other error
  within the retry window ends the attempts, and that error is returned, wrapped. When
  every attempt of the window was answered with a retried error, the error of the last
  attempt is returned, wrapped, and no further request is sent: the retry helper hands
  back the last error of the retried function, which is not a timeout. As long as the
  service answers with API errors, no more requests are sent than fit into the window.
  The one further request is sent only when the helper times out with no error on
  record, that is, when no attempt was answered within the window; in no case are more
  requests sent than fit into the window, plus one.
\<close>

theorem constraint_retries:
  "((\<forall>i<k1. create_retryable
               (snd (CreateConstraint c1 i (serviceCatalogCreateConstraintInput c1 d1))))
      \<and> k1 < n1
      \<and> CreateConstraint c1 k1 (serviceCatalogCreateConstraintInput c1 d1) = (out1, Some e1)
      \<and> \<not> create_retryable (Some e1) \<and> \<not> TimedOut (Some e1)
    \<longrightarrow> resourceAwsServiceCatalogConstraintCreate n1 c1 d1
          = (d1, Some (ErrorfW ''error creating Service Catalog Constraint: '' e1), Suc k1))
 \<and> ((\<forall>i<n2. create_retryable
               (snd (CreateConstraint c2 i (serviceCatalogCreateConstraintInput c2 d2))))
      \<and> 0 < n2
      \<and> CreateConstraint c2 (n2 - 1) (serviceCatalogCreateConstraintInput c2 d2) = (out2, Some e2)
    \<longrightarrow> resourceAwsServiceCatalogConstraintCreate n2 c2 d2
          = (d2, Some (ErrorfW ''error creating Service Catalog Constraint: '' e2), n2))
 \<and> (0 < n3
      \<and> (\<forall>i<n3. \<forall>e. snd (CreateConstraint c3 i (serviceCatalogCreateConstraintInput c3 d3)) = Some e
                       \<longrightarrow> as_awserr e \<noteq> None)
    \<longrightarrow> snd (snd (resourceAwsServiceCatalogConstraintCreate n3 c3 d3)) \<le> n3)
 \<and> (CreateConstraint c4 0 (serviceCatalogCreateConstraintInput c4 d4) = (out4, Some e4)
    \<longrightarrow> resourceAwsServiceCatalogConstraintCreate 0 c4 d4
          = (d4, Some (ErrorfW ''error creating Service Catalog Constraint: '' e4), 1))
 \<and> snd (snd (resourceAwsServiceCatalogConstraintCreate n5 c5 d5)) \<le> Suc n5
 \<and> ((\<forall>i<k6. update_retryable
               (UpdateConstraint c6 i (serviceCatalogUpdateConstraintInput d6)))
      \<and> k6 < n6
      \<and> UpdateConstraint c6 k6 (serviceCatalogUpdateConstraintInput d6) = Some e6
      \<and> \<not> update_retryable (Some e6) \<and> \<not> TimedOut (Some e6)
    \<longrightarrow> resourceAwsServiceCatalogConstraintUpdate n6 c6 d6
          = (d6, Some (ErrorfW (''error updating Service Catalog Constraint (''
                                 @ Id d6 @ ''): '') e6), Suc k6))
 \<and> ((\<forall>i<n7. update_retryable
               (UpdateConstraint c7 i (serviceCatalogUpdateConstraintInput d7)))
      \<and> 0 < n7
      \<and> UpdateConstraint c7 (n7 - 1) (serviceCatalogUpdateConstraintInput d7) = Some e7
    \<longrightarrow> resourceAwsServiceCatalogConstraintUpdate n7 c7 d7
          = (d7, Some (ErrorfW (''error updating Service Catalog Constraint (''
                                 @ Id d7 @ ''): '') e7), n7))
 \<and> (0 < n8
      \<and> (\<forall>i<n8. \<forall>e. UpdateConstraint c8 i (serviceCatalogUpdateConstraintInput d8) = Some e
                       \<longrightarrow> as_awserr e \<noteq> None)
    \<longrightarrow> snd (snd (resourceAwsServiceCatalogConstraintUpdate n8 c8 d8)) \<le> n8)
 \<and> (UpdateConstraint c9 0 (serviceCatalogUpdateConstraintInput d9) = Some e9
    \<longrightarrow> resourceAwsServiceCatalogConstraintUpdate 0 c9 d9
          = (d9, Some (ErrorfW (''error updating Service Catalog Constraint (''
                                 @ Id d9 @ ''): '') e9), 1))
 \<and> snd (snd (resourceAwsServiceCatalogConstraintUpdate n10 c10 d10)) \<le> Suc n10
 \<and> (UpdateConstraint c11 0 (serviceCatalogUpdateConstraintInput d11) = Some e11
      \<and> ErrCodeEquals (Some e11) ErrCodeResourceNotFoundException \<and> 0 < n11
    \<longrightarrow> resourceAwsServiceCatalogConstraintUpdate n11 c11 d11
          = (d11, Some (ErrorfW (''error updating Service Catalog Constraint (''
                                 @ Id d11 @ ''): '') e11), 1))"
proof (intro conjI impI)
  show "snd (snd (resourceAwsServiceCatalogConstraintCreate n5 c5 d5)) \<le> Suc n5"
    by (rule create_bounded)
  show "snd (snd (resourceAwsServiceCatalogConstraintUpdate n10 c10 d10)) \<le> Suc n10"
    by (rule update_bounded)
qed ((elim conjE)?;
     (rule create_aborts create_window_used_up create_no_extra_attempt create_unanswered_window
           update_aborts update_window_used_up update_no_extra_attempt update_unanswered_window
           update_not_found_aborts; assumption))+

theorem constraint_retries_witness:
  "resourceAwsServiceCatalogConstraintCreate 5 sc_conn_flaky (example_data [] True [])
     = (example_data [] True [],
        Some (ErrorfW ''error creating Service Catalog Constraint: ''
                (AwsError ''AccessDeniedException'' ''denied'')), Suc 2)
 \<and> resourceAwsServiceCatalogConstraintCreate 2 sc_conn_flaky (example_data [] True [])
     = (example_data [] True [],
        Some (ErrorfW ''error creating Service Catalog Constraint: ''
                (AwsError ''ResourceNotFoundException'' ''no such portfolio'')), 2)
 \<and> snd (snd (resourceAwsServiceCatalogConstraintCreate 2 sc_conn_flaky
                (example_data [] True []))) \<le> 2
 \<and> resourceAwsServiceCatalogConstraintCreate 0 sc_conn_flaky (example_data [] True [])
     = (example_data [] True [],
        Some (ErrorfW ''error creating Service Catalog Constraint: ''
                (AwsError ''InvalidParametersException'' ''the profile does not exist yet'')), 1)
 \<and> resourceAwsServiceCatalogConstraintUpdate 5 sc_conn_flaky (example_data ''cons-1'' False [])
     = (example_data ''cons-1'' False [],
        Some (ErrorfW (''error updating Service Catalog Constraint (''
                        @ Id (example_data ''cons-1'' False []) @ ''): '')
                (AwsError ''ResourceNotFoundException'' ''no such constraint'')), Suc 2)
 \<and> resourceAwsServiceCatalogConstraintUpdate 2 sc_conn_flaky (example_data ''cons-1'' False [])
     = (example_data ''cons-1'' False [],
        Some (ErrorfW (''error updating Service Catalog Constraint (''
                        @ Id (example_data ''cons-1'' False []) @ ''): '')
                (AwsError ''InvalidParametersException'' ''the profile does not exist yet'')), 2)
 \<and> snd (snd (resourceAwsServiceCatalogConstraintUpdate 2 sc_conn_flaky
                (example_data ''cons-1'' False []))) \<le> 2
 \<and> resourceAwsServiceCatalogConstraintUpdate 0 sc_conn_flaky (example_data ''cons-1'' False [])
     = (example_data ''cons-1'' False [],
        Some (ErrorfW (''error updating Service Catalog Constraint (''
                        @ Id (example_data ''cons-1'' False []) @ ''): '')
                (AwsError ''InvalidParametersException'' ''the profile does not exist yet'')), 1)
 \<and> resourceAwsServiceCatalogConstraintUpdate 5 sc_conn_gone (example_data ''cons-1'' False [])
     = (example_data ''cons-1'' False [],
        Some (ErrorfW (''error updating Service Catalog Constraint (''
                        @ Id (example_data ''cons-1'' False []) @ ''): '')
                (AwsError ''ResourceNotFoundException'' ''not found'')), 1)"
proof -
  have h1: "(\<forall>i<2. create_retryable
               (snd (CreateConstraint sc_conn_flaky i
                       (serviceCatalogCreateConstraintInput sc_conn_flaky
                          (example_data [] True [])))))
      \<and> (2::nat) < 5
      \<and> CreateConstraint sc_conn_flaky 2
           (serviceCatalogCreateConstraintInput sc_conn_flaky (example_data [] True []))
          = (None, Some (AwsError ''AccessDeniedException'' ''denied''))
      \<and> \<not> create_retryable (Some (AwsError ''AccessDeniedException'' ''denied''))
      \<and> \<not> TimedOut (Some (AwsError ''AccessDeniedException'' ''denied''))"
    by (auto simp: sc_conn_flaky_def create_retryable_def ErrMessageContains_def
        ErrCodeEquals_def ErrCodeInvalidParametersException_def
        ErrCodeResourceNotFoundException_def)
  have h2: "(\<forall>i<2. create_retryable
               (snd (CreateConstraint sc_conn_flaky i
                       (serviceCatalogCreateConstraintInput sc_conn_flaky
                          (example_data [] True [])))))
      \<and> (0::nat) < 2
      \<and> CreateConstraint sc_conn_flaky (2 - 1)
           (serviceCatalogCreateConstraintInput sc_conn_flaky (example_data [] True []))
          = (None, Some (AwsError ''ResourceNotFoundException'' ''no such portfolio''))"
    using h1 by (simp add: sc_conn_flaky_def)
  have h3: "(0::nat) < 2
      \<and> (\<forall>i<2. \<forall>e. snd (CreateConstraint sc_conn_flaky i
                            (serviceCatalogCreateConstraintInput sc_conn_flaky
                               (example_data [] True []))) = Some e
                      \<longrightarrow> as_awserr e \<noteq> None)"
    by (auto simp: sc_conn_flaky_def)
  have h4: "CreateConstraint sc_conn_flaky 0
           (serviceCatalogCreateConstraintInput sc_conn_flaky (example_data [] True []))
          = (None, Some (AwsError ''InvalidParametersException''
                           ''the profile does not exist yet''))"
    by (simp add: sc_conn_flaky_def)
  have h6: "(\<forall>i<2. update_retryable
               (UpdateConstraint sc_conn_flaky i
                  (serviceCatalogUpdateConstraintInput (example_data ''cons-1'' False []))))
      \<and> (2::nat) < 5
      \<and> UpdateConstraint sc_conn_flaky 2
           (serviceCatalogUpdateConstraintInput (example_data ''cons-1'' False []))
          = Some (AwsError ''ResourceNotFoundException'' ''no such constraint'')
      \<and> \<not> update_retryable (Some (AwsError ''ResourceNotFoundException'' ''no such constraint''))
      \<and> \<not> TimedOut (Some (AwsError ''ResourceNotFoundException'' ''no such constraint''))"
    by (auto simp: sc_conn_flaky_def update_retryable_def ErrMessageContains_def
        ErrCodeInvalidParametersException_def)
  have h7: "(\<forall>i<2. update_retryable
               (UpdateConstraint sc_conn_flaky i
                  (serviceCatalogUpdateConstraintInput (example_data ''cons-1'' False []))))
      \<and> (0::nat) < 2
      \<and> UpdateConstraint sc_conn_flaky (2 - 1)
           (serviceCatalogUpdateConstraintInput (example_data ''cons-1'' False []))
          = Some (AwsError ''InvalidParametersException'' ''the profile does not exist yet'')"
    using h6 by (simp add: sc_conn_flaky_def)
  have h8: "(0::nat) < 2
      \<and> (\<forall>i<2. \<forall>e. UpdateConstraint sc_conn_flaky i
                       (serviceCatalogUpdateConstraintInput (example_data ''cons-1'' False []))
                     = Some e
                      \<longrightarrow> as_awserr e \<noteq> None)"
    by (auto simp: sc_conn_flaky_def)
  have h9: "UpdateConstraint sc_conn_flaky 0
           (serviceCatalogUpdateConstraintInput (example_data ''cons-1'' False []))
          = Some (AwsError ''InvalidParametersException'' ''the profile does not exist yet'')"
    by (simp add: sc_conn_flaky_def)
  have h11: "UpdateConstraint sc_conn_gone 0
              (serviceCatalogUpdateConstraintInput (example_data ''cons-1'' False []))
            = Some (AwsError ''ResourceNotFoundException'' ''not found'')
      \<and> ErrCodeEquals (Some (AwsError ''ResourceNotFoundException'' ''not found''))
            ErrCodeResourceNotFoundException
      \<and> (0::nat) < 5"
    by (simp add: sc_conn_gone_def ErrCodeEquals_def ErrCodeResourceNotFoundException_def)
  show ?thesis
    using h1 h2 h3 h4 h6 h7 h8 h9 h11
      constraint_retries
        [where ?c1.0 = sc_conn_flaky and ?d1.0 = "example_data [] True []" and ?k1.0 = 2
           and ?n1.0 = 5 and ?out1.0 = None
           and ?e1.0 = "AwsError ''AccessDeniedException'' ''denied''"
           and ?c2.0 = sc_conn_flaky and ?d2.0 = "example_data [] True []" and ?n2.0 = 2
           and ?out2.0 = None
           and ?e2.0 = "AwsError ''ResourceNotFoundException'' ''no such portfolio''"
           and ?c3.0 = sc_conn_flaky and ?d3.0 = "example_data [] True []" and ?n3.0 = 2
           and ?c4.0 = sc_conn_flaky and ?d4.0 = "example_data [] True []" and ?out4.0 = None
           and ?e4.0 = "AwsError ''InvalidParametersException'' ''the profile does not exist yet''"
           and ?c5.0 = sc_conn_flaky and ?d5.0 = "example_data [] True []" and ?n5.0 = 2
           and ?c6.0 = sc_conn_flaky and ?d6.0 = "example_data ''cons-1'' False []"
           and ?k6.0 = 2 and ?n6.0 = 5
           and ?e6.0 = "AwsError ''ResourceNotFoundException'' ''no such constraint''"
           and ?c7.0 = sc_conn_flaky and ?d7.0 = "example_data ''cons-1'' False []"
           and ?n7.0 = 2
           and ?e7.0 = "AwsError ''InvalidParametersException'' ''the profile does not exist yet''"
           and ?c8.0 = sc_conn_flaky and ?d8.0 = "example_data ''cons-1'' False []"
           and ?n8.0 = 2
           and ?c9.0 = sc_conn_flaky and ?d9.0 = "example_data ''cons-1'' False []"
           and ?e9.0 = "AwsError ''InvalidParametersException'' ''the profile does not exist yet''"
           and ?c10.0 = sc_conn_flaky and ?d10.0 = "example_data ''cons-1'' False []"
           and ?n10.0 = 2
           and ?c11.0 = sc_conn_gone and ?d11.0 = "example_data ''cons-1'' False []"
           and ?n11.0 = 5 and ?e11.0 = "AwsError ''ResourceNotFoundException'' ''not found''"]
    by blast
qed

end
